theory Spec2Isabelle
  imports Main "HOL-Library.Sublist" "HOL-Library.Multiset"
begin

section \<open>JavaScript strings\<close>

text \<open>
  A JavaScript string is a sequence of UTF-16 code units; \<open>length\<close>, \<open>substring\<close>,
  \<open>includes\<close> and the regular expressions of the source (none has the \<open>u\<close> flag) all
  work on code units. A string is therefore a list of code units, and \<open>js\<close> turns an
  ASCII literal into one. The rupee sign of the source is the code unit 8377.
\<close>

type_synonym jstring = "nat list"

definition js :: "string \<Rightarrow> jstring" where
  "js s = map of_char s"

text \<open>
  \<open>String.prototype.toLowerCase\<close> converts a string by the lower-case mappings of the
  Unicode Character Database. \<open>lowerTable\<close> lists those of the Basic Multilingual Plane
  beyond ASCII (Unicode 14) as ranges \<open>(lo, hi, step, img)\<close>: every \<open>step\<close>-th code
  unit \<open>c\<close> from \<open>lo\<close> to \<open>hi\<close> has the lower-case form \<open>img + (c - lo)\<close>. The capital I
  with dot above (304) is the one code unit whose lower-case form is two code units,
  \<open>i\<close> and the combining dot above; the Kelvin sign (8490) is the one code unit beyond
  ASCII whose lower-case form is an ASCII letter. Two rules of the conversion are left out: a capital sigma at the end of
  a word becomes a final sigma (here it becomes the medial one, 963), and the cased
  letters of the supplementary planes, which are surrogate pairs, are left as they are.
\<close>

definition lowerTable :: "(nat \<times> nat \<times> nat \<times> nat) list" where
  "lowerTable =
     [
      (192, 214, 1, 224), (216, 222, 1, 248), (256, 302, 2, 257), (306, 310, 2, 307),
      (313, 327, 2, 314), (330, 374, 2, 331), (376, 376, 1, 255), (377, 381, 2, 378),
      (385, 385, 1, 595), (386, 388, 2, 387), (390, 390, 1, 596), (391, 391, 1, 392),
      (393, 394, 1, 598), (395, 395, 1, 396), (398, 398, 1, 477), (399, 399, 1, 601),
      (400, 400, 1, 603), (401, 401, 1, 402), (403, 403, 1, 608), (404, 404, 1, 611),
      (406, 406, 1, 617), (407, 407, 1, 616), (408, 408, 1, 409), (412, 412, 1, 623),
      (413, 413, 1, 626), (415, 415, 1, 629), (416, 420, 2, 417), (422, 422, 1, 640),
      (423, 423, 1, 424), (425, 425, 1, 643), (428, 428, 1, 429), (430, 430, 1, 648),
      (431, 431, 1, 432), (433, 434, 1, 650), (435, 437, 2, 436), (439, 439, 1, 658),
      (440, 440, 1, 441), (444, 444, 1, 445), (452, 452, 1, 454), (453, 453, 1, 454),
      (455, 455, 1, 457), (456, 456, 1, 457), (458, 458, 1, 460), (459, 475, 2, 460),
      (478, 494, 2, 479), (497, 497, 1, 499), (498, 500, 2, 499), (502, 502, 1, 405),
      (503, 503, 1, 447), (504, 542, 2, 505), (544, 544, 1, 414), (546, 562, 2, 547),
      (570, 570, 1, 11365), (571, 571, 1, 572), (573, 573, 1, 410), (574, 574, 1, 11366),
      (577, 577, 1, 578), (579, 579, 1, 384), (580, 580, 1, 649), (581, 581, 1, 652),
      (582, 590, 2, 583), (880, 882, 2, 881), (886, 886, 1, 887), (895, 895, 1, 1011),
      (902, 902, 1, 940), (904, 906, 1, 941), (908, 908, 1, 972), (910, 911, 1, 973),
      (913, 929, 1, 945), (931, 939, 1, 963), (975, 975, 1, 983), (984, 1006, 2, 985),
      (1012, 1012, 1, 952), (1015, 1015, 1, 1016), (1017, 1017, 1, 1010), (1018, 1018, 1, 1019),
      (1021, 1023, 1, 891), (1024, 1039, 1, 1104), (1040, 1071, 1, 1072), (1120, 1152, 2, 1121),
      (1162, 1214, 2, 1163), (1216, 1216, 1, 1231), (1217, 1229, 2, 1218), (1232, 1326, 2, 1233),
      (1329, 1366, 1, 1377), (4256, 4293, 1, 11520), (4295, 4295, 1, 11559),
      (4301, 4301, 1, 11565), (5024, 5103, 1, 43888), (5104, 5109, 1, 5112),
      (7312, 7354, 1, 4304), (7357, 7359, 1, 4349), (7680, 7828, 2, 7681), (7838, 7838, 1, 223),
      (7840, 7934, 2, 7841), (7944, 7951, 1, 7936), (7960, 7965, 1, 7952), (7976, 7983, 1, 7968),
      (7992, 7999, 1, 7984), (8008, 8013, 1, 8000), (8025, 8031, 2, 8017), (8040, 8047, 1, 8032),
      (8072, 8079, 1, 8064), (8088, 8095, 1, 8080), (8104, 8111, 1, 8096), (8120, 8121, 1, 8112),
      (8122, 8123, 1, 8048), (8124, 8124, 1, 8115), (8136, 8139, 1, 8050), (8140, 8140, 1, 8131),
      (8152, 8153, 1, 8144), (8154, 8155, 1, 8054), (8168, 8169, 1, 8160), (8170, 8171, 1, 8058),
      (8172, 8172, 1, 8165), (8184, 8185, 1, 8056), (8186, 8187, 1, 8060), (8188, 8188, 1, 8179),
      (8486, 8486, 1, 969), (8490, 8490, 1, 107), (8491, 8491, 1, 229), (8498, 8498, 1, 8526),
      (8544, 8559, 1, 8560), (8579, 8579, 1, 8580), (9398, 9423, 1, 9424),
      (11264, 11311, 1, 11312), (11360, 11360, 1, 11361), (11362, 11362, 1, 619),
      (11363, 11363, 1, 7549), (11364, 11364, 1, 637), (11367, 11371, 2, 11368),
      (11373, 11373, 1, 593), (11374, 11374, 1, 625), (11375, 11375, 1, 592),
      (11376, 11376, 1, 594), (11378, 11378, 1, 11379), (11381, 11381, 1, 11382),
      (11390, 11391, 1, 575), (11392, 11490, 2, 11393), (11499, 11501, 2, 11500),
      (11506, 11506, 1, 11507), (42560, 42604, 2, 42561), (42624, 42650, 2, 42625),
      (42786, 42798, 2, 42787), (42802, 42862, 2, 42803), (42873, 42875, 2, 42874),
      (42877, 42877, 1, 7545), (42878, 42886, 2, 42879), (42891, 42891, 1, 42892),
      (42893, 42893, 1, 613), (42896, 42898, 2, 42897), (42902, 42920, 2, 42903),
      (42922, 42922, 1, 614), (42923, 42923, 1, 604), (42924, 42924, 1, 609),
      (42925, 42925, 1, 620), (42926, 42926, 1, 618), (42928, 42928, 1, 670),
      (42929, 42929, 1, 647), (42930, 42930, 1, 669), (42931, 42931, 1, 43859),
      (42932, 42946, 2, 42933), (42948, 42948, 1, 42900), (42949, 42949, 1, 642),
      (42950, 42950, 1, 7566), (42951, 42953, 2, 42952), (42960, 42960, 1, 42961),
      (42966, 42968, 2, 42967), (42997, 42997, 1, 42998), (65313, 65338, 1, 65345)]"

definition lowerHigh :: "nat \<Rightarrow> nat list" where
  "lowerHigh c =
     (if c = 304 then [105, 775]
      else case find (\<lambda>(lo, hi, step, img). lo \<le> c \<and> c \<le> hi \<and> (c - lo) mod step = 0) lowerTable of
             None \<Rightarrow> [c]
           | Some (lo, hi, step, img) \<Rightarrow> [img + (c - lo)])"

definition lowerUnits :: "nat \<Rightarrow> nat list" where
  "lowerUnits c =
     (if c < 128 then [if 65 \<le> c \<and> c \<le> 90 then c + 32 else c] else lowerHigh c)"

definition toLowerCase :: "jstring \<Rightarrow> jstring" where
  "toLowerCase s = concat (map lowerUnits s)"

text \<open>\<open>s.includes(k)\<close>: \<open>k\<close> occurs in \<open>s\<close> as a contiguous run.\<close>

definition includesStr :: "jstring \<Rightarrow> jstring \<Rightarrow> bool" where
  "includesStr s k = sublist k s"

text \<open>\<open>xs.join(sep)\<close>.\<close>

fun joinStr :: "jstring \<Rightarrow> jstring list \<Rightarrow> jstring" where
  "joinStr sep [] = []"
| "joinStr sep [x] = x"
| "joinStr sep (x # y # ys) = x @ sep @ joinStr sep (y # ys)"

text \<open>\<open>[...new Set(xs)]\<close>: the first occurrence of every element, in order.\<close>

fun dedupe :: "'a list \<Rightarrow> 'a list" where
  "dedupe [] = []"
| "dedupe (x # xs) = x # dedupe (filter (\<lambda>y. y \<noteq> x) xs)"

text \<open>Every value the source throws is an \<open>Error\<close> object with a string message.\<close>

datatype js_error =
  Error jstring | ReferenceError jstring | TypeError jstring | ValidationError jstring

fun message :: "js_error \<Rightarrow> jstring" where
  "message (Error m) = m"
| "message (ReferenceError m) = m"
| "message (TypeError m) = m"
| "message (ValidationError m) = m"

section \<open>Regular expressions\<close>

text \<open>
  The patterns of the source are built from character classes, sequence, alternation
  and greedy or lazy repetition. \<open>ms r s\<close> lists, in the order in which a backtracking
  matcher tries them, the remainders of \<open>s\<close> after every match of \<open>r\<close> at the start of
  \<open>s\<close>; the first one is the match JavaScript reports. An iteration of a repetition that
  consumes nothing is rejected, as in ECMAScript.
\<close>

datatype regex =
    Chr "nat \<Rightarrow> bool"
  | Eps
  | Seq regex regex
  | Alt regex regex
  | Star regex
  | LazyStar regex

fun ms :: "regex \<Rightarrow> jstring \<Rightarrow> jstring list" where
  "ms (Chr p) s = (case s of [] \<Rightarrow> [] | c # cs \<Rightarrow> if p c then [cs] else [])"
| "ms Eps s = [s]"
| "ms (Seq a b) s = concat (map (ms b) (ms a s))"
| "ms (Alt a b) s = ms a s @ ms b s"
| "ms (Star a) s =
     concat (map (\<lambda>s'. if length s' < length s then ms (Star a) s' else []) (ms a s)) @ [s]"
| "ms (LazyStar a) s =
     s # concat (map (\<lambda>s'. if length s' < length s then ms (LazyStar a) s' else []) (ms a s))"

text \<open>The two repetition equations unfold without end; they are applied by hand.\<close>

declare ms.simps(5,6) [simp del]

text \<open>The remainder after the match at the start of \<open>s\<close>, if there is one.\<close>

definition matchAt :: "regex \<Rightarrow> jstring \<Rightarrow> jstring option" where
  "matchAt r s = (case ms r s of [] \<Rightarrow> None | rest # _ \<Rightarrow> Some rest)"

definition chr :: "nat \<Rightarrow> regex" where
  "chr c = Chr (\<lambda>x. x = c)"

text \<open>A letter under the \<open>i\<close> flag: either case of an ASCII letter.\<close>

definition chri :: "nat \<Rightarrow> regex" where
  "chri c = Chr (\<lambda>x. x = c \<or> (97 \<le> c \<and> c \<le> 122 \<and> x + 32 = c) \<or> (65 \<le> c \<and> c \<le> 90 \<and> x = c + 32))"

fun seqs :: "regex list \<Rightarrow> regex" where
  "seqs [] = Eps"
| "seqs [r] = r"
| "seqs (r # rs) = Seq r (seqs rs)"

definition liti :: "string \<Rightarrow> regex" where
  "liti w = seqs (map chri (js w))"

definition plus :: "regex \<Rightarrow> regex" where
  "plus r = Seq r (Star r)"

definition opt :: "regex \<Rightarrow> regex" where
  "opt r = Alt r Eps"

text \<open>\<open>\s\<close>: the white space and line terminator code units of ECMAScript.\<close>

definition isSpace :: "nat \<Rightarrow> bool" where
  "isSpace c =
     ((9 \<le> c \<and> c \<le> 13) \<or> c = 32 \<or> c = 160 \<or> c = 5760 \<or> (8192 \<le> c \<and> c \<le> 8202)
      \<or> c = 8232 \<or> c = 8233 \<or> c = 8239 \<or> c = 8287 \<or> c = 12288 \<or> c = 65279)"

definition isDigit :: "nat \<Rightarrow> bool" where
  "isDigit c = (48 \<le> c \<and> c \<le> 57)"

definition space :: regex where
  "space = Chr isSpace"

definition digit :: regex where
  "digit = Chr isDigit"

text \<open>
  \<open>s.split(r)\<close> for a pattern without capture groups. \<open>acc\<close> is the piece begun at the
  last split point, reversed; a match that is empty at the start of a piece is skipped.
\<close>

function splitRe :: "regex \<Rightarrow> jstring \<Rightarrow> jstring \<Rightarrow> jstring list" where
  "splitRe r acc [] = [rev acc]"
| "splitRe r acc (c # cs) =
     (case matchAt r (c # cs) of
        None \<Rightarrow> splitRe r (c # acc) cs
      | Some rest \<Rightarrow>
          if length rest < length (c # cs) then rev acc # splitRe r [] rest
          else if acc = [] then splitRe r (c # acc) cs
          else rev acc # splitRe r [] (c # cs))"
  by pat_completeness auto
termination
  by (relation "measures [\<lambda>(r, acc, s). length s, \<lambda>(r, acc, s). length acc]") auto

section \<open>Clause Segmenter (\<open>splitIntoClause\<close>)\<close>

text \<open>\<open>s.replace(/\s+/g, ' ')\<close> and \<open>s.replace(/\n+/g, '\n')\<close>: every maximal run of code
  units of the class becomes the one code unit \<open>r\<close>.\<close>

fun collapseRuns :: "(nat \<Rightarrow> bool) \<Rightarrow> nat \<Rightarrow> jstring \<Rightarrow> jstring" where
  "collapseRuns p r [] = []"
| "collapseRuns p r [c] = (if p c then [r] else [c])"
| "collapseRuns p r (c # d # cs) =
     (if p c then (if p d then collapseRuns p r (d # cs) else r # collapseRuns p r (d # cs))
      else c # collapseRuns p r (d # cs))"

text \<open>\<open>s.trim()\<close>.\<close>

definition trim :: "jstring \<Rightarrow> jstring" where
  "trim s = rev (dropWhile isSpace (rev (dropWhile isSpace s)))"

text \<open>\<open>s.split(/\s+/)\<close>; \<open>acc\<close> is the word being read, reversed.\<close>

function splitWsAcc :: "jstring \<Rightarrow> jstring \<Rightarrow> jstring list" where
  "splitWsAcc acc [] = [rev acc]"
| "splitWsAcc acc (c # cs) =
     (if isSpace c then rev acc # splitWsAcc [] (dropWhile isSpace cs)
      else splitWsAcc (c # acc) cs)"
  by pat_completeness auto
termination
  by (relation "measure (\<lambda>(acc, s). length s)") (auto simp: length_dropWhile_le le_imp_less_Suc)

definition splitWs :: "jstring \<Rightarrow> jstring list" where
  "splitWs s = splitWsAcc [] s"

text \<open>The six \<open>clauseIndicators\<close>, in the order of the source.\<close>

definition clauseIndicators :: "regex list" where
  "clauseIndicators =
     [seqs [chr 10, Star space, plus digit, chr 46, plus space],
      seqs [chr 10, Star space, chr 40, Chr (\<lambda>c. 97 \<le> c \<and> c \<le> 122), chr 41, plus space],
      seqs [chr 10, Star space, liti ''Article'', plus space, plus digit],
      seqs [chr 10, Star space, liti ''Section'', plus space, plus digit],
      seqs [chr 10, Star space, liti ''Clause'', plus space, plus digit],
      seqs [chr 46, Star space, chr 10, Star space, Chr (\<lambda>c. 65 \<le> c \<and> c \<le> 90)]]"

record clauseUnit =
  index :: nat
  unitText :: jstring
  wordCount :: nat
  estimatedTokens :: nat

text \<open>
  Token arithmetic. \<open>words.length * 1.3 <= maxTokens\<close> is \<open>13 * n \<le> 10 * maxTokens\<close>,
  \<open>Math.round(n * 1.3)\<close> is \<open>(13 * n + 5) div 10\<close> and \<open>Math.floor(maxTokens / 1.3)\<close> is
  \<open>(10 * maxTokens) div 13\<close>: the double nearest to 1.3 exceeds it by less than
  \<open>5 * 10^-17\<close>, too little to move a product or quotient of the sizes that occur across
  an integer or a half. \<open>maxTokens\<close> is a natural number.
\<close>

definition cleanText :: "jstring \<Rightarrow> jstring" where
  "cleanText text = trim (collapseRuns (\<lambda>c. c = 10) 10 (collapseRuns isSpace 32 text))"

text \<open>One pass of \<open>clauseIndicators.forEach\<close>: split every clause, keep the pieces that are
  not blank.\<close>

definition applyIndicator :: "jstring list \<Rightarrow> regex \<Rightarrow> jstring list" where
  "applyIndicator clauses pattern =
     concat (map (\<lambda>clause. filter (\<lambda>split. length (trim split) > 0) (splitRe pattern [] clause)) clauses)"

definition unitOf :: "nat \<Rightarrow> jstring \<Rightarrow> clauseUnit" where
  "unitOf i chunk =
     \<lparr> index = i, unitText = trim chunk, wordCount = length (splitWs chunk),
       estimatedTokens = (13 * length (splitWs chunk) + 5) div 10 \<rparr>"

text \<open>
  The \<open>for\<close> loop that slices a long clause into word windows. It ends when \<open>i\<close> reaches
  \<open>words.length\<close>; the value \<open>None\<close> stands for a loop that never ends.
\<close>

partial_function (option) sliceLoop :: "jstring list \<Rightarrow> nat \<Rightarrow> nat \<Rightarrow> clauseUnit list \<Rightarrow> clauseUnit list option" where
  "sliceLoop words chunkSize i finalClauses =
     (if i < length words
      then (let chunk = joinStr (js '' '') (take chunkSize (drop i words))
            in sliceLoop words chunkSize (i + chunkSize)
                 (if length (trim chunk) > 0
                  then finalClauses @ [unitOf (length finalClauses) chunk]
                  else finalClauses))
      else Some finalClauses)"

fun sliceClauses :: "nat \<Rightarrow> jstring list \<Rightarrow> clauseUnit list \<Rightarrow> clauseUnit list option" where
  "sliceClauses maxTokens [] finalClauses = Some finalClauses"
| "sliceClauses maxTokens (clause # rest) finalClauses =
     (let words = splitWs (trim clause)
      in if 13 * length words \<le> 10 * maxTokens
         then sliceClauses maxTokens rest
                (finalClauses @
                   [\<lparr> index = length finalClauses, unitText = trim clause, wordCount = length words,
                      estimatedTokens = (13 * length words + 5) div 10 \<rparr>])
         else (case sliceLoop words ((10 * maxTokens) div 13) 0 finalClauses of
                 None \<Rightarrow> None
               | Some finalClauses' \<Rightarrow> sliceClauses maxTokens rest finalClauses'))"

definition splitIntoClause :: "jstring \<Rightarrow> nat \<Rightarrow> clauseUnit list option" where
  "splitIntoClause text maxTokens =
     (if length (trim text) = 0 then Some []
      else sliceClauses maxTokens (fold (\<lambda>pattern clauses. applyIndicator clauses pattern)
                                     clauseIndicators [cleanText text]) [])"

text \<open>
  The shape of normalised text: every white-space code unit is a space and is not
  followed by another white-space code unit.
\<close>

fun singleSp :: "jstring \<Rightarrow> bool" where
  "singleSp [] = True"
| "singleSp [c] = (isSpace c \<longrightarrow> c = 32)"
| "singleSp (c # d # cs) = ((isSpace c \<longrightarrow> c = 32 \<and> \<not> isSpace d) \<and> singleSp (d # cs))"




text \<open>
  Two inputs of the segmenter: the two-line text of the specification's scenario (code
  unit 10 is the line feed), and 770 one-letter words separated by single spaces, the
  shortest text that the default \<open>maxTokens = 1000\<close> slices into word windows.
\<close>

definition scenarioText :: jstring where
  "scenarioText = js ''1. Rent is Rs. 15,000 per month.'' @ [10] @ js ''2. Notice period is 1 month.''"


text \<open>
  A text without clause markers: none of the six indicators finds a match in it, so
  that \<open>text.split(pattern)\<close> leaves it in one piece. \<open>twoLines\<close> is such a text, of two
  lines.
\<close>

definition markerFree :: "jstring \<Rightarrow> bool" where
  "markerFree text = list_all (\<lambda>pattern. splitRe pattern [] text = [text]) clauseIndicators"


section \<open>Risk Rules Engine (\<open>analyzeRiskByRules\<close>)\<close>

definition riskKeywords_high :: "jstring list" where
  "riskKeywords_high = map js
     [''penalty'', ''seize'', ''collateral'', ''waiver'', ''indemnity'', ''forfeit'',
      ''liquidated damages'', ''acceleration'', ''default'', ''breach'',
      ''termination without cause'', ''unlimited liability'', ''personal guarantee'',
      ''cross-default'', ''material adverse change'', ''force majeure exclusion'']"

definition riskKeywords_medium :: "jstring list" where
  "riskKeywords_medium = map js
     [''late fee'', ''interest rate'', ''security deposit'', ''arbitration'',
      ''jurisdiction'', ''governing law'', ''assignment'', ''modification'',
      ''notice period'', ''renewal terms'', ''insurance requirements'',
      ''compliance obligations'', ''reporting requirements'']"

definition riskKeywords_low :: "jstring list" where
  "riskKeywords_low = map js
     [''payment terms'', ''delivery'', ''warranty'', ''maintenance'',
      ''standard terms'', ''mutual agreement'', ''good faith'',
      ''reasonable efforts'', ''business days'', ''written notice'']"

record rulesAnalysis =
  riskLevel :: jstring
  riskScore :: nat
  detectedKeywords :: "jstring list"

text \<open>
  One \<open>forEach\<close> over a keyword list: a keyword found in the lower-cased text adds the
  list's weight to \<open>riskScore\<close> and is pushed on \<open>detectedKeywords\<close>.
\<close>

definition scanKeywords :: "nat \<Rightarrow> jstring \<Rightarrow> jstring list \<Rightarrow> nat \<times> jstring list \<Rightarrow> nat \<times> jstring list" where
  "scanKeywords weight text kws st =
     fold (\<lambda>keyword (score, detected).
             if includesStr text (toLowerCase keyword)
             then (score + weight, detected @ [keyword])
             else (score, detected)) kws st"

definition analyzeRiskByRules :: "jstring \<Rightarrow> rulesAnalysis" where
  "analyzeRiskByRules clauseText =
     (let text = toLowerCase clauseText;
          st1 = scanKeywords 3 text riskKeywords_high (0, []);
          st2 = scanKeywords 2 text riskKeywords_medium st1;
          (score, detected) = scanKeywords 1 text riskKeywords_low st2
      in \<lparr> riskLevel = (if 6 \<le> score then js ''High''
                         else if 3 \<le> score then js ''Medium'' else js ''Low''),
            riskScore = score,
            detectedKeywords = dedupe detected \<rparr>)"

text \<open>A keyword occurs in a clause text, letter case ignored.\<close>

definition matchesKeyword :: "jstring \<Rightarrow> jstring \<Rightarrow> bool" where
  "matchesKeyword clauseText keyword =
     includesStr (toLowerCase clauseText) (toLowerCase keyword)"

section \<open>Clause Analyzer (\<open>analyzeClauseWithAI\<close>, \<open>analyzeClause\<close>)\<close>

text \<open>
  What one call of the external model gives back, after \<open>response.text()\<close>, the search
  for a brace-delimited object and \<open>JSON.parse\<close>: either an object whose four fields are
  present or not (\<open>None\<close> is a missing or falsy field), or text with no object that
  parses. The JSON parser itself is not modelled; a field that is present is a string
  (a list of strings for \<open>important_terms\<close>).
\<close>

datatype ai_text =
    JsonObject "jstring option" "jstring option" "jstring option" "jstring list option"
  | PlainText jstring

record aiAnalysis =
  explanation :: jstring
  ai_riskLevel :: jstring
  reason :: jstring
  importantTerms :: "jstring list"

text \<open>\<open>v || d\<close> on a string field: missing and empty are falsy.\<close>

fun orElse :: "jstring option \<Rightarrow> jstring \<Rightarrow> jstring" where
  "orElse None d = d"
| "orElse (Some v) d = (if v = [] then d else v)"

text \<open>\<open>s.substring(0, n)\<close>.\<close>

definition substring0 :: "nat \<Rightarrow> jstring \<Rightarrow> jstring" where
  "substring0 n s = take n s"

text \<open>
  The \<open>catch\<close> of \<open>processQueue\<close>: a rejection whose message includes \<open>429\<close> is
  replaced by \<open>Error('QUOTA_EXCEEDED')\<close>, any other rejection is passed on.
\<close>

definition makeRateLimitedRequest :: "js_error + 'a \<Rightarrow> js_error + 'a" where
  "makeRateLimitedRequest r =
     (case r of
        Inr v \<Rightarrow> Inr v
      | Inl error \<Rightarrow>
          if message error \<noteq> [] \<and> includesStr (message error) (js ''429'')
          then Inl (Error (js ''QUOTA_EXCEEDED''))
          else Inl error)"

definition maxRetries :: nat where
  "maxRetries = 2"

text \<open>
  \<open>model n\<close> is what the external model answers to the call of attempt \<open>n\<close>. The
  back-off delays between attempts are not part of the result and are left out.
\<close>

function analyzeClauseWithAI :: "(nat \<Rightarrow> js_error + ai_text) \<Rightarrow> nat \<Rightarrow> js_error + aiAnalysis" where
  "analyzeClauseWithAI model retryCount =
     (case makeRateLimitedRequest (model retryCount) of
        Inr (JsonObject e r rs ts) \<Rightarrow>
          Inr \<lparr> explanation = orElse e (js ''Unable to generate explanation''),
                ai_riskLevel = orElse r (js ''Medium''),
                reason = orElse rs (js ''Unable to determine risk reason''),
                importantTerms = (case ts of None \<Rightarrow> [] | Some l \<Rightarrow> l) \<rparr>
      | Inr (PlainText text) \<Rightarrow>
          Inr \<lparr> explanation = substring0 200 text @ js ''...'',
                ai_riskLevel = js ''Medium'',
                reason = js ''AI analysis completed but format unclear'',
                importantTerms = [] \<rparr>
      | Inl error \<Rightarrow>
          if includesStr (message error) (js ''quota'') \<or> includesStr (message error) (js ''429'')
          then Inl error
          else if retryCount < maxRetries \<and>
                  (includesStr (message error) (js ''overloaded'') \<or>
                   includesStr (message error) (js ''503'') \<or>
                   includesStr (message error) (js ''Service Unavailable''))
          then analyzeClauseWithAI model (retryCount + 1)
          else Inl error)"
  by pat_completeness auto
termination
  by (relation "measure (\<lambda>(model, retryCount). maxRetries - retryCount)") auto

declare analyzeClauseWithAI.simps [simp del]

definition generateRulesBasedExplanation :: "jstring \<Rightarrow> rulesAnalysis \<Rightarrow> jstring" where
  "generateRulesBasedExplanation clauseText rulesAnalysis =
     (if length (detectedKeywords rulesAnalysis) = 0
      then js ''This appears to be a standard contract clause with no major risk indicators detected.''
      else
        js ''This clause contains '' @ toLowerCase (riskLevel rulesAnalysis) @ js '' risk terms: ''
        @ joinStr (js '', '') (detectedKeywords rulesAnalysis) @ js ''. ''
        @ (if riskLevel rulesAnalysis = js ''High''
           then js ''These terms may significantly impact your rights or obligations. Consider legal review.''
           else if riskLevel rulesAnalysis = js ''Medium''
           then js ''These terms require attention and understanding before signing.''
           else if riskLevel rulesAnalysis = js ''Low''
           then js ''These are generally standard terms but worth understanding.''
           else []))"

text \<open>
  A property read of the object literal \<open>{ 'Low': 1, 'Medium': 2, 'High': 3 }\<close>: an own
  property is a number, a name inherited from \<open>Object.prototype\<close> is a function or an
  object, any other name is \<open>undefined\<close>.
\<close>

datatype propval = Own nat | Inherited | Missing

definition objectPrototypeNames :: "jstring list" where
  "objectPrototypeNames = map js
     [''constructor'', ''__defineGetter__'', ''__defineSetter__'', ''hasOwnProperty'',
      ''__lookupGetter__'', ''__lookupSetter__'', ''isPrototypeOf'', ''propertyIsEnumerable'',
      ''toString'', ''valueOf'', ''__proto__'', ''toLocaleString'']"

definition riskLevels :: "jstring \<Rightarrow> propval" where
  "riskLevels k =
     (if k = js ''Low'' then Own 1
      else if k = js ''Medium'' then Own 2
      else if k = js ''High'' then Own 3
      else if k \<in> set objectPrototypeNames then Inherited
      else Missing)"

text \<open>
  \<open>a >= b\<close> on two property reads: a function, an object and \<open>undefined\<close> all convert
  to \<open>NaN\<close>, and every comparison with \<open>NaN\<close> is false.
\<close>

fun geProp :: "propval \<Rightarrow> propval \<Rightarrow> bool" where
  "geProp (Own a) (Own b) = (b \<le> a)"
| "geProp _ _ = False"

record clauseAnalysis =
  page :: nat
  clause :: jstring
  c_explanation :: jstring
  risk_ai :: jstring
  risk_rules :: jstring
  final_risk :: jstring
  c_reason :: jstring
  c_keywords :: "jstring list"
  important_terms :: "jstring list"

text \<open>
  The outer \<open>catch\<close> of the source (the all-Medium "Analysis failed" record) is entered
  only when \<open>clauseText\<close> is not a string or a thrown value has no message; with the
  typed inputs of this model no statement of the \<open>try\<close> block throws.
\<close>

definition analyzeClause :: "jstring \<Rightarrow> nat \<Rightarrow> (nat \<Rightarrow> js_error + ai_text) \<Rightarrow> clauseAnalysis" where
  "analyzeClause clauseText pg model =
     (let rulesAnalysis = analyzeRiskByRules clauseText;
          aiAnalysis =
            (case analyzeClauseWithAI model 0 of
               Inr a \<Rightarrow> a
             | Inl aiError \<Rightarrow>
                 \<lparr> explanation = generateRulesBasedExplanation clauseText rulesAnalysis,
                   ai_riskLevel = riskLevel rulesAnalysis,
                   reason = js ''Rules-based analysis: '' @
                     (if length (detectedKeywords rulesAnalysis) > 0
                      then js ''Contains keywords: '' @ joinStr (js '', '') (detectedKeywords rulesAnalysis)
                      else js ''Standard contract clause''),
                   importantTerms = detectedKeywords rulesAnalysis \<rparr>);
          rulesRisk = riskLevel rulesAnalysis;
          aiRisk = ai_riskLevel aiAnalysis;
          finalRisk = (if geProp (riskLevels rulesRisk) (riskLevels aiRisk) then rulesRisk else aiRisk)
      in \<lparr> page = pg,
            clause = clauseText,
            c_explanation = explanation aiAnalysis,
            risk_ai = ai_riskLevel aiAnalysis,
            risk_rules = rulesRisk,
            final_risk = finalRisk,
            c_reason = reason aiAnalysis,
            c_keywords = detectedKeywords rulesAnalysis,
            important_terms = importantTerms aiAnalysis \<rparr>)"

text \<open>
  The ordering Low < Medium < High of the specification, on the three level names.
\<close>

definition isLevel :: "jstring \<Rightarrow> bool" where
  "isLevel r = (r = js ''Low'' \<or> r = js ''Medium'' \<or> r = js ''High'')"

definition levelRank :: "jstring \<Rightarrow> nat" where
  "levelRank r = (if r = js ''High'' then 3 else if r = js ''Medium'' then 2 else 1)"

definition maxLevel :: "jstring \<Rightarrow> jstring \<Rightarrow> jstring" where
  "maxLevel a b = (if levelRank b \<le> levelRank a then a else b)"

section \<open>Document analysis pipeline (route \<open>/analyze\<close>)\<close>

record riskDist =
  low :: nat
  medium :: nat
  high :: nat

text \<open>
  \<open>riskDistribution[risk]++\<close> when \<open>riskDistribution.hasOwnProperty(risk)\<close>, with
  \<open>risk = clause.final_risk.toLowerCase()\<close>.
\<close>

definition countRisk :: "clauseAnalysis \<Rightarrow> riskDist \<Rightarrow> riskDist" where
  "countRisk c d =
     (let risk = toLowerCase (final_risk c)
      in if risk = js ''low'' then d\<lparr>low := low d + 1\<rparr>
         else if risk = js ''medium'' then d\<lparr>medium := medium d + 1\<rparr>
         else if risk = js ''high'' then d\<lparr>high := high d + 1\<rparr>
         else d)"

definition riskDistribution :: "clauseAnalysis list \<Rightarrow> riskDist" where
  "riskDistribution analyzedClauses =
     fold countRisk analyzedClauses \<lparr> low = 0, medium = 0, high = 0 \<rparr>"

definition overallRisk :: "riskDist \<Rightarrow> jstring" where
  "overallRisk d =
     (if high d > 0 then js ''High''
      else if medium d > low d then js ''Medium''
      else js ''Low'')"

text \<open>
  The clause loop of the route: clause \<open>i\<close> is analysed on the current page, and the page
  advances when \<open>(i + 1) % Math.ceil(n / (pages || 1)) === 0\<close>. \<open>models i\<close> is the
  behaviour of the external model during the analysis of clause \<open>i\<close>.
\<close>

definition ceilDiv :: "nat \<Rightarrow> nat \<Rightarrow> nat" where
  "ceilDiv a b = (a + b - 1) div b"

fun analyzeLoop :: "nat \<Rightarrow> nat \<Rightarrow> (nat \<Rightarrow> nat \<Rightarrow> js_error + ai_text) \<Rightarrow> nat \<Rightarrow> nat \<Rightarrow> jstring list \<Rightarrow> clauseAnalysis list" where
  "analyzeLoop n pages models i currentPage [] = []"
| "analyzeLoop n pages models i currentPage (text # rest) =
     analyzeClause text currentPage (models i)
     # analyzeLoop n pages models (i + 1)
         (if (i + 1) mod ceilDiv n (if pages = 0 then 1 else pages) = 0
          then currentPage + 1 else currentPage)
         rest"

definition analyzeClauses :: "nat \<Rightarrow> (nat \<Rightarrow> nat \<Rightarrow> js_error + ai_text) \<Rightarrow> jstring list \<Rightarrow> clauseAnalysis list" where
  "analyzeClauses pages models texts = analyzeLoop (length texts) pages models 0 1 texts"

text \<open>
  The object that the route assigns to \<open>document.analysis\<close>, as far as the clauses and
  their counts go.
\<close>

record documentAnalysis =
  a_clauses :: "clauseAnalysis list"
  a_totalClauses :: nat
  a_riskDistribution :: riskDist
  a_overallRisk :: jstring

definition buildAnalysis :: "nat \<Rightarrow> (nat \<Rightarrow> nat \<Rightarrow> js_error + ai_text) \<Rightarrow> jstring list \<Rightarrow> documentAnalysis" where
  "buildAnalysis pages models texts =
     (let analyzedClauses = analyzeClauses pages models texts;
          dist = riskDistribution analyzedClauses
      in \<lparr> a_clauses = analyzedClauses,
            a_totalClauses = length analyzedClauses,
            a_riskDistribution = dist,
            a_overallRisk = overallRisk dist \<rparr>)"

text \<open>
  \<open>await document.save()\<close> runs the validators that \<open>clauseSchema\<close> and \<open>documentSchema\<close>
  declare on these paths: a \<open>required\<close> string must not be empty, and each of
  \<open>risk_ai\<close>, \<open>risk_rules\<close>, \<open>final_risk\<close> and \<open>overallRisk\<close> must be one of the \<open>enum\<close> values.
  When a validator fails the save is rejected with a validation error; the analysis is
  not stored and the route answers with an error instead of the analysis.
\<close>

definition riskEnum :: "jstring list" where
  "riskEnum = map js [''Low'', ''Medium'', ''High'']"

definition validClause :: "clauseAnalysis \<Rightarrow> bool" where
  "validClause c =
     (clause c \<noteq> [] \<and> c_explanation c \<noteq> []
      \<and> risk_ai c \<in> set riskEnum \<and> risk_rules c \<in> set riskEnum \<and> final_risk c \<in> set riskEnum
      \<and> c_reason c \<noteq> [])"

definition saveDocument :: "documentAnalysis \<Rightarrow> js_error + documentAnalysis" where
  "saveDocument a =
     (if list_all validClause (a_clauses a) \<and> a_overallRisk a \<in> set riskEnum
      then Inr a
      else Inl (ValidationError (js ''Document validation failed'')))"

definition analyzeRoute :: "nat \<Rightarrow> (nat \<Rightarrow> nat \<Rightarrow> js_error + ai_text) \<Rightarrow> jstring list \<Rightarrow> js_error + documentAnalysis" where
  "analyzeRoute pages models texts = saveDocument (buildAnalysis pages models texts)"

text \<open>
  The external verdict of a clause names one of the three levels, or the external
  analysis fails and the fallback verdict is used.
\<close>

definition externalLevelOk :: "(nat \<Rightarrow> js_error + ai_text) \<Rightarrow> bool" where
  "externalLevelOk model =
     (case analyzeClauseWithAI model 0 of
        Inr a \<Rightarrow> isLevel (ai_riskLevel a)
      | Inl e \<Rightarrow> True)"

text \<open>Two behaviours of the external model: the same reply to every call, and the same
  rejection of every call.\<close>

definition alwaysReplies :: "ai_text \<Rightarrow> nat \<Rightarrow> js_error + ai_text" where
  "alwaysReplies r n = Inr r"

definition alwaysThrows :: "js_error \<Rightarrow> nat \<Rightarrow> js_error + ai_text" where
  "alwaysThrows e n = Inl e"

text \<open>The model answers the first clause's calls with \<open>r\<close> and rejects all later calls.\<close>

definition repliesFirstOnly :: "ai_text \<Rightarrow> js_error \<Rightarrow> nat \<Rightarrow> nat \<Rightarrow> js_error + ai_text" where
  "repliesFirstOnly r e i = (if i = 0 then alwaysReplies r else alwaysThrows e)"

section \<open>External Analysis Scheduler (\<open>processQueue\<close>)\<close>












section \<open>Document Summarizer (\<open>generateDocumentSummary\<close> and its callers)\<close>

text \<open>Template literals print a number in decimal.\<close>

function showNat :: "nat \<Rightarrow> jstring" where
  "showNat n = (if n < 10 then [48 + n] else showNat (n div 10) @ [48 + n mod 10])"
  by pat_completeness auto
termination
  by (relation "measure id") auto

declare showNat.simps [simp del]

text \<open>
  The object that \<open>generateDocumentSummary\<close> returns; a field that the parsed reply of
  the external model lacks is \<open>None\<close>.
\<close>

record summaryData =
  key_findings :: "jstring list option"
  recommendations :: "jstring list option"
  overall_risk :: "jstring option"
  summary :: "jstring option"

datatype summary_text = SummaryObject summaryData | SummaryPlain jstring

text \<open>
  The whole body of \<open>generateDocumentSummary\<close> is one \<open>try\<close> block whose \<open>catch\<close>
  returns a fixed object, so the function returns on every path; the result is \<open>Inr\<close>.
\<close>

definition generateDocumentSummary :: "js_error + summary_text \<Rightarrow> js_error + summaryData" where
  "generateDocumentSummary reply =
     (case makeRateLimitedRequest reply of
        Inr (SummaryObject obj) \<Rightarrow> Inr obj
      | Inr (SummaryPlain text) \<Rightarrow>
          Inr \<lparr> key_findings = Some [js ''Document analysis completed''],
                recommendations = Some [js ''Review all clauses carefully''],
                overall_risk = Some (js ''Medium''),
                summary = Some (js ''Contract analysis completed successfully.'') \<rparr>
      | Inl error \<Rightarrow>
          Inr \<lparr> key_findings = Some [js ''Unable to generate summary''],
                recommendations = Some [js ''Manual review recommended''],
                overall_risk = Some (js ''Medium''),
                summary = Some (js ''Summary generation failed.'') \<rparr>)"

text \<open>The rules-based summary in the \<open>catch\<close> of the compare route.\<close>

definition rulesBasedSummary :: "clauseAnalysis list \<Rightarrow> summaryData" where
  "rulesBasedSummary analyzedClauses =
     (let d = riskDistribution analyzedClauses; risk = overallRisk d
      in \<lparr> key_findings = Some
              [js ''Document contains '' @ showNat (length analyzedClauses) @ js '' clauses'',
               js ''Overall risk level: '' @ risk,
               js ''High risk clauses: '' @ showNat (high d),
               js ''Medium risk clauses: '' @ showNat (medium d),
               js ''Low risk clauses: '' @ showNat (low d)],
            recommendations = Some
              (if risk = js ''High''
               then [js ''Consider legal review due to high-risk clauses'',
                     js ''Pay special attention to penalty and liability clauses'']
               else if risk = js ''Medium''
               then [js ''Review medium-risk clauses carefully'',
                     js ''Consider professional consultation for complex terms'']
               else [js ''Standard contract terms detected'',
                     js ''Generally acceptable risk level'']),
            overall_risk = None,
            summary = None \<rparr>)"

record documentSummary =
  totalClauses :: nat
  riskDistributionOf :: riskDist
  overallRiskOf :: jstring
  keyFindings :: "jstring list"
  recommendationsOf :: "jstring list"

definition orEmpty :: "jstring list option \<Rightarrow> jstring list" where
  "orEmpty v = (case v of None \<Rightarrow> [] | Some l \<Rightarrow> l)"

definition buildSummary :: "clauseAnalysis list \<Rightarrow> summaryData \<Rightarrow> documentSummary" where
  "buildSummary analyzedClauses summaryData =
     \<lparr> totalClauses = length analyzedClauses,
       riskDistributionOf = riskDistribution analyzedClauses,
       overallRiskOf = overallRisk (riskDistribution analyzedClauses),
       keyFindings = orEmpty (key_findings summaryData),
       recommendationsOf = orEmpty (recommendations summaryData) \<rparr>"

text \<open>
  The summary of the route \<open>/analyze\<close>: no \<open>try\<close> around the call, an exception of
  \<open>generateDocumentSummary\<close> would leave through the route's outer handler.
\<close>

definition analyzeRouteSummary :: "clauseAnalysis list \<Rightarrow> js_error + summary_text \<Rightarrow> js_error + documentSummary" where
  "analyzeRouteSummary analyzedClauses reply =
     (case generateDocumentSummary reply of
        Inl error \<Rightarrow> Inl error
      | Inr summaryData \<Rightarrow> Inr (buildSummary analyzedClauses summaryData))"

text \<open>
  The summary of the route \<open>/compare\<close> (auto-analysis of a document): the call sits in a
  \<open>try\<close> whose \<open>catch\<close> substitutes the rules-based summary.
\<close>

definition compareRouteSummary :: "clauseAnalysis list \<Rightarrow> js_error + summary_text \<Rightarrow> js_error + documentSummary" where
  "compareRouteSummary analyzedClauses reply =
     (let summaryData =
            (case generateDocumentSummary reply of
               Inr d \<Rightarrow> d
             | Inl summaryError \<Rightarrow> rulesBasedSummary analyzedClauses)
      in Inr (buildSummary analyzedClauses summaryData))"

section \<open>Comparison Engine\<close>

text \<open>
  \<open>searchRe r s\<close> is \<open>s.match(r)\<close> for a pattern without the \<open>g\<close> flag: the text of the
  leftmost match. \<open>matchAll r s\<close> is \<open>s.match(r)\<close> for a pattern with the \<open>g\<close> flag: the
  texts of all matches, each search starting where the previous match ended (one code
  unit further after an empty match); the empty list stands for \<open>null\<close>.
\<close>

fun searchRe :: "regex \<Rightarrow> jstring \<Rightarrow> jstring option" where
  "searchRe r [] = (case matchAt r [] of None \<Rightarrow> None | Some rest \<Rightarrow> Some [])"
| "searchRe r (c # cs) =
     (case matchAt r (c # cs) of
        None \<Rightarrow> searchRe r cs
      | Some rest \<Rightarrow> Some (take (length (c # cs) - length rest) (c # cs)))"

function matchAll :: "regex \<Rightarrow> jstring \<Rightarrow> jstring list" where
  "matchAll r [] = (case matchAt r [] of None \<Rightarrow> [] | Some rest \<Rightarrow> [[]])"
| "matchAll r (c # cs) =
     (case matchAt r (c # cs) of
        None \<Rightarrow> matchAll r cs
      | Some rest \<Rightarrow>
          take (length (c # cs) - length rest) (c # cs)
          # (if length rest < length (c # cs) then matchAll r rest else matchAll r cs))"
  by pat_completeness auto
termination
  by (relation "measure (\<lambda>(r, s). length s)") auto

text \<open>\<open>.\<close>: any code unit but a line terminator.\<close>

definition dot :: regex where
  "dot = Chr (\<lambda>c. c \<noteq> 10 \<and> c \<noteq> 13 \<and> c \<noteq> 8232 \<and> c \<noteq> 8233)"

text \<open>\<open>\d+(?:,\d+)*\<close>, \<open>\d{4,}\<close> and \<open>months?\<close>.\<close>

definition grouped :: regex where
  "grouped = Seq (plus digit) (Star (Seq (chr 44) (plus digit)))"

definition digits4 :: regex where
  "digits4 = seqs [digit, digit, digit, digit, Star digit]"

definition months :: regex where
  "months = Seq (liti ''month'') (opt (chri 115))"

definition rupeeAmount :: regex where
  "rupeeAmount = seqs [chr 8377, Star space, grouped]"

definition rsAmount :: regex where
  "rsAmount = seqs [liti ''rs'', opt (chr 46), Star space, grouped]"

definition rentPatterns :: "regex list" where
  "rentPatterns =
     [rupeeAmount,
      rsAmount,
      seqs [grouped, Star space,
            Alt (Seq (liti ''rupee'') (opt (chri 115))) (Alt (Seq (liti ''rs'') (opt (chr 46))) (chr 8377))],
      seqs [liti ''rent'', LazyStar dot, grouped],
      seqs [liti ''monthly'', LazyStar dot, grouped],
      digits4]"

definition noticePatterns :: "regex list" where
  "noticePatterns =
     [seqs [plus digit, Star space, months, Star space, liti ''notice''],
      seqs [liti ''notice'', LazyStar dot, plus digit, Star space, months],
      seqs [plus digit, Star space, months, Star space, liti ''prior''],
      seqs [plus digit, Star space, liti ''day'', opt (chri 115), Star space, liti ''notice'']]"

text \<open>
  \<open>parseInt\<close> on the strings that occur here, which are digit runs or begin with a digit
  run or with a letter: leading white space is skipped, the value of the leading
  decimal digits is returned, \<open>None\<close> is \<open>NaN\<close>. Numbers are exact (the source's doubles
  are, below \<open>2^53\<close>).
\<close>

definition digitsValue :: "jstring \<Rightarrow> nat" where
  "digitsValue ds = foldl (\<lambda>v c. 10 * v + (c - 48)) 0 ds"

definition parseInt :: "jstring \<Rightarrow> nat option" where
  "parseInt s =
     (let ds = takeWhile isDigit (dropWhile isSpace s)
      in if ds = [] then None else Some (digitsValue ds))"

text \<open>\<open>n.toLocaleString()\<close> in the default \<open>en-US\<close> locale: groups of three digits.\<close>

fun commas :: "jstring \<Rightarrow> jstring" where
  "commas (a # b # c # d # rest) = a # b # c # 44 # commas (d # rest)"
| "commas ds = ds"

definition toLocaleString :: "nat \<Rightarrow> jstring" where
  "toLocaleString n = rev (commas (rev (showNat n)))"

text \<open>
  One pass of the loop over \<open>rentPatterns\<close>: an amount still unset takes the number in
  the first match of the pattern when it lies between 1000 and 1000000; the loop
  stops as soon as both amounts are set.
\<close>

definition rentAmount :: "regex \<Rightarrow> jstring \<Rightarrow> nat option" where
  "rentAmount pattern text =
     (case matchAll pattern text of
        [] \<Rightarrow> None
      | m # _ \<Rightarrow>
          (case parseInt (filter isDigit m) of
             None \<Rightarrow> None
           | Some num \<Rightarrow> if 1000 \<le> num \<and> num \<le> 1000000 then Some num else None))"

fun extractRent :: "regex list \<Rightarrow> jstring \<Rightarrow> jstring \<Rightarrow> nat option \<times> nat option \<Rightarrow> nat option \<times> nat option" where
  "extractRent [] text1 text2 (amount1, amount2) = (amount1, amount2)"
| "extractRent (pattern # rest) text1 text2 (amount1, amount2) =
     (let a1 = (if amount1 = None then rentAmount pattern text1 else amount1);
          a2 = (if amount2 = None then rentAmount pattern text2 else amount2)
      in if a1 \<noteq> None \<and> a2 \<noteq> None then (a1, a2)
         else extractRent rest text1 text2 (a1, a2))"

text \<open>
  The loop over \<open>noticePatterns\<close>: \<open>match1[1]\<close> is the text of the second match of the
  global pattern. \<open>None\<close>, and the number 0, are falsy.
\<close>

definition truthy :: "nat option \<Rightarrow> bool" where
  "truthy v = (case v of None \<Rightarrow> False | Some n \<Rightarrow> n \<noteq> 0)"

definition noticePeriod :: "regex \<Rightarrow> jstring \<Rightarrow> nat option \<Rightarrow> nat option" where
  "noticePeriod pattern text period =
     (case matchAll pattern text of
        [] \<Rightarrow> period
      | [m] \<Rightarrow> None
      | m # m1 # _ \<Rightarrow> parseInt m1)"

fun extractNotice :: "regex list \<Rightarrow> jstring \<Rightarrow> jstring \<Rightarrow> nat option \<times> nat option \<Rightarrow> nat option \<times> nat option" where
  "extractNotice [] text1 text2 (period1, period2) = (period1, period2)"
| "extractNotice (pattern # rest) text1 text2 (period1, period2) =
     (let p1 = (if \<not> truthy period1 then noticePeriod pattern text1 period1 else period1);
          p2 = (if \<not> truthy period2 then noticePeriod pattern text2 period2 else period2)
      in if truthy p1 \<and> truthy p2 then (p1, p2)
         else extractNotice rest text1 text2 (p1, p2))"

definition analyzeDifference :: "clauseAnalysis \<Rightarrow> clauseAnalysis \<Rightarrow> jstring \<Rightarrow> jstring" where
  "analyzeDifference clause1 clause2 type =
     (let text1 = toLowerCase (clause clause1);
          text2 = toLowerCase (clause clause2);
          rent = (if type = js ''rent''
                  then (case extractRent rentPatterns text1 text2 (None, None) of
                          (Some amount1, Some amount2) \<Rightarrow>
                            if amount1 \<noteq> amount2
                            then Some (js ''Rent differs: '' @ [8377] @ toLocaleString amount1
                                       @ js '' vs '' @ [8377] @ toLocaleString amount2)
                            else None
                        | _ \<Rightarrow> None)
                  else None);
          notice = (if type = js ''notice''
                    then (case extractNotice noticePatterns text1 text2 (None, None) of
                            (Some period1, Some period2) \<Rightarrow>
                              if period1 \<noteq> 0 \<and> period2 \<noteq> 0 \<and> period1 \<noteq> period2
                              then Some (js ''Notice period differs: '' @ showNat period1
                                         @ js '' vs '' @ showNat period2 @ js '' months'')
                              else None
                          | _ \<Rightarrow> None)
                    else None)
      in case rent of
           Some r \<Rightarrow> r
         | None \<Rightarrow>
             (case notice of
                Some r \<Rightarrow> r
              | None \<Rightarrow>
                  if text1 \<noteq> text2 then js ''Clause content differs between documents''
                  else if final_risk clause1 \<noteq> final_risk clause2
                  then js ''Risk levels differ: '' @ final_risk clause1 @ js '' vs '' @ final_risk clause2
                  else js ''Similar clauses with minor variations''))"

text \<open>
  \<open>generatePlainEnglishDifference\<close>. The \<open>deposit\<close> and \<open>notice\<close> cases read
  \<open>numbers1.length\<close>; no variable \<open>numbers1\<close> is declared in the function, the class or
  the module, and a class body is strict code, so the read throws a \<open>ReferenceError\<close>.
\<close>

definition generatePlainEnglishDifference :: "clauseAnalysis \<Rightarrow> clauseAnalysis \<Rightarrow> jstring \<Rightarrow> js_error + jstring" where
  "generatePlainEnglishDifference clause1 clause2 type =
     (let text1 = toLowerCase (clause clause1);
          text2 = toLowerCase (clause clause2);
          byRisk =
            (if final_risk clause1 \<noteq> final_risk clause2
             then js ''Document 1 has '' @ toLowerCase (final_risk clause1)
                  @ js '' risk while Document 2 has '' @ toLowerCase (final_risk clause2)
                  @ js '' risk for this clause.''
             else js ''Both documents have similar terms for this clause.'')
      in if type = js ''rent''
         then (case extractRent rentPatterns text1 text2 (None, None) of
                 (Some amount1, Some amount2) \<Rightarrow>
                   if amount1 < amount2
                   then Inr (js ''Document 1 is cheaper ('' @ [8377] @ toLocaleString amount1
                             @ js ''/month) compared to Document 2 ('' @ [8377]
                             @ toLocaleString amount2 @ js ''/month).'')
                   else if amount1 > amount2
                   then Inr (js ''Document 2 is cheaper ('' @ [8377] @ toLocaleString amount2
                             @ js ''/month) compared to Document 1 ('' @ [8377]
                             @ toLocaleString amount1 @ js ''/month).'')
                   else Inr (js ''Both documents have the same rent amount ('' @ [8377]
                             @ toLocaleString amount1 @ js ''/month).'')
               | _ \<Rightarrow> Inr byRisk)
         else if type = js ''deposit'' then Inl (ReferenceError (js ''numbers1 is not defined''))
         else if type = js ''notice'' then Inl (ReferenceError (js ''numbers1 is not defined''))
         else Inr byRisk)"

text \<open>
  \<open>getHigherRisk\<close>: \<open>riskLevels[risk] || 1\<close> is 1 for an unknown level; for a name
  inherited from \<open>Object.prototype\<close> it is a function, \<open>Math.max\<close> is then \<open>NaN\<close> and no
  key is found: the result is \<open>undefined\<close>, here \<open>None\<close>.
\<close>

definition getHigherRisk :: "jstring \<Rightarrow> jstring \<Rightarrow> jstring option" where
  "getHigherRisk risk1 risk2 =
     (let level = (\<lambda>risk. case riskLevels risk of
                              Own n \<Rightarrow> Some n | Missing \<Rightarrow> Some 1 | Inherited \<Rightarrow> None)
      in case (level risk1, level risk2) of
           (Some level1, Some level2) \<Rightarrow>
             find (\<lambda>key. riskLevels key = Own (max level1 level2)) [js ''Low'', js ''Medium'', js ''High'']
         | _ \<Rightarrow> None)"

record keyInfo =
  infoText :: jstring
  risk :: jstring
  infoExplanation :: jstring
  fullText :: jstring

definition getKeyInfo :: "clauseAnalysis \<Rightarrow> jstring \<Rightarrow> keyInfo" where
  "getKeyInfo c clauseType =
     (let text = toLowerCase (clause c);
          displayText = substring0 200 (clause c) @ (if length (clause c) > 200 then js ''...'' else []);
          displayText1 =
            (if clauseType = js ''rent''
             then (case searchRe (Alt rupeeAmount (Alt rsAmount digits4)) text of
                     Some amount \<Rightarrow> js ''Rent: '' @ amount @ js '' - '' @ displayText
                   | None \<Rightarrow> displayText)
             else displayText);
          displayText2 =
            (if clauseType = js ''deposit''
             then (case searchRe (Alt (seqs [plus digit, Star space, months]) rupeeAmount) text of
                     Some amount \<Rightarrow> js ''Deposit: '' @ amount @ js '' - '' @ displayText1
                   | None \<Rightarrow> displayText1)
             else displayText1)
      in \<lparr> infoText = displayText2, risk = final_risk c,
            infoExplanation = c_explanation c, fullText = clause c \<rparr>)"

record comparisonEntry =
  clauseType :: jstring
  doc1 :: "keyInfo option"
  doc2 :: "keyInfo option"
  difference :: jstring
  entryRisk :: "jstring option"
  plainEnglish :: jstring

text \<open>\<open>type.charAt(0).toUpperCase() + type.slice(1)\<close> on the lower-case type names.\<close>

definition capitalize :: "jstring \<Rightarrow> jstring" where
  "capitalize type =
     (case type of [] \<Rightarrow> [] | c # cs \<Rightarrow> (if 97 \<le> c \<and> c \<le> 122 then c - 32 else c) # cs)"

definition generateClauseComparison :: "clauseAnalysis option \<Rightarrow> clauseAnalysis option \<Rightarrow> jstring \<Rightarrow> js_error + comparisonEntry" where
  "generateClauseComparison clause1 clause2 type =
     (let comparison =
            \<lparr> clauseType = capitalize type,
              doc1 = map_option (\<lambda>c. getKeyInfo c type) clause1,
              doc2 = map_option (\<lambda>c. getKeyInfo c type) clause2,
              difference = [], entryRisk = Some (js ''Low''), plainEnglish = [] \<rparr>
      in case (clause1, clause2) of
           (Some c1, Some c2) \<Rightarrow>
             (case generatePlainEnglishDifference c1 c2 type of
                Inl error \<Rightarrow> Inl error
              | Inr plain \<Rightarrow>
                  Inr (comparison\<lparr> difference := analyzeDifference c1 c2 type,
                                   entryRisk := getHigherRisk (final_risk c1) (final_risk c2),
                                   plainEnglish := plain \<rparr>))
         | (Some c1, None) \<Rightarrow>
             Inr (comparison\<lparr> difference := js ''Only present in Document 1'',
                              entryRisk := Some (final_risk c1),
                              plainEnglish := js ''Document 1 has this '' @ type
                                              @ js '' clause, but Document 2 doesn't.'' \<rparr>)
         | (None, Some c2) \<Rightarrow>
             Inr (comparison\<lparr> difference := js ''Only present in Document 2'',
                              entryRisk := Some (final_risk c2),
                              plainEnglish := js ''Document 2 has this '' @ type
                                              @ js '' clause, but Document 1 doesn't.'' \<rparr>)
         | (None, None) \<Rightarrow> Inr comparison)"

definition clauseTypes :: "(jstring \<times> jstring list) list" where
  "clauseTypes =
     [(js ''rent'', map js [''rent'', ''payment'', ''monthly'', ''amount'']),
      (js ''deposit'', map js [''deposit'', ''security'', ''advance'']),
      (js ''notice'', map js [''notice'', ''termination'', ''exit'']),
      (js ''maintenance'', map js [''maintenance'', ''repair'', ''upkeep'']),
      (js ''utilities'', map js [''utilities'', ''electricity'', ''water'']),
      (js ''pets'', map js [''pets'', ''animals'']),
      (js ''subletting'', map js [''sublet'', ''subletting'', ''assign'']),
      (js ''duration'', map js [''duration'', ''term'', ''period'', ''lease'']),
      (js ''renewal'', map js [''renewal'', ''extend'', ''renew''])]"

text \<open>
  \<open>clauses.find((c, i) => !matchedClauses.has(i) && keywords.some(...))\<close> followed by
  \<open>clauses.indexOf(found)\<close>. The elements of a clause array are distinct objects, so
  \<open>indexOf\<close> gives back the index at which \<open>find\<close> stopped; the model returns that index.
\<close>

definition hasKeyword :: "jstring list \<Rightarrow> clauseAnalysis \<Rightarrow> bool" where
  "hasKeyword kws c = (\<exists>keyword\<in>set kws. includesStr (toLowerCase (clause c)) keyword)"

definition findClause :: "clauseAnalysis list \<Rightarrow> nat list \<Rightarrow> jstring list \<Rightarrow> nat option" where
  "findClause clauses matched kws =
     find (\<lambda>i. i \<notin> set matched \<and> hasKeyword kws (clauses ! i)) [0..<length clauses]"

text \<open>
  The loop over \<open>clauseTypes\<close>. The state is the two sets of matched indices and the
  table; an exception of \<open>generateClauseComparison\<close> ends the whole comparison.
\<close>

fun matchTypes :: "(jstring \<times> jstring list) list \<Rightarrow> clauseAnalysis list \<Rightarrow> clauseAnalysis list
    \<Rightarrow> nat list \<times> nat list \<times> comparisonEntry list
    \<Rightarrow> js_error + (nat list \<times> nat list \<times> comparisonEntry list)" where
  "matchTypes [] clauses1 clauses2 st = Inr st"
| "matchTypes ((type, kws) # rest) clauses1 clauses2 (matched1, matched2, comparisonTable) =
     (let found1 = findClause clauses1 matched1 kws;
          found2 = findClause clauses2 matched2 kws
      in if found1 = None \<and> found2 = None
         then matchTypes rest clauses1 clauses2 (matched1, matched2, comparisonTable)
         else (case generateClauseComparison (map_option (\<lambda>i. clauses1 ! i) found1)
                      (map_option (\<lambda>i. clauses2 ! i) found2) type of
                 Inl error \<Rightarrow> Inl error
               | Inr comparison \<Rightarrow>
                   matchTypes rest clauses1 clauses2
                     (matched1 @ (case found1 of None \<Rightarrow> [] | Some i \<Rightarrow> [i]),
                      matched2 @ (case found2 of None \<Rightarrow> [] | Some i \<Rightarrow> [i]),
                      comparisonTable @ [comparison])))"

text \<open>The two \<open>forEach\<close> loops over the clauses that no type has matched.\<close>

fun residual :: "bool \<Rightarrow> clauseAnalysis list \<Rightarrow> nat list \<Rightarrow> nat list \<Rightarrow> js_error + comparisonEntry list" where
  "residual first clauses matched [] = Inr []"
| "residual first clauses matched (i # rest) =
     (if i \<in> set matched then residual first clauses matched rest
      else (case (if first then generateClauseComparison (Some (clauses ! i)) None (js ''other'')
                  else generateClauseComparison None (Some (clauses ! i)) (js ''other'')) of
              Inl error \<Rightarrow> Inl error
            | Inr comparison \<Rightarrow>
                (case residual first clauses matched rest of
                   Inl error \<Rightarrow> Inl error
                 | Inr table \<Rightarrow> Inr (comparison # table))))"

definition compareClausesDetailed :: "clauseAnalysis list \<Rightarrow> clauseAnalysis list \<Rightarrow> js_error + comparisonEntry list" where
  "compareClausesDetailed clauses1 clauses2 =
     (case matchTypes clauseTypes clauses1 clauses2 ([], [], []) of
        Inl error \<Rightarrow> Inl error
      | Inr (matched1, matched2, comparisonTable) \<Rightarrow>
          (case residual True clauses1 matched1 [0..<length clauses1] of
             Inl error \<Rightarrow> Inl error
           | Inr only1 \<Rightarrow>
               (case residual False clauses2 matched2 [0..<length clauses2] of
                  Inl error \<Rightarrow> Inl error
                | Inr only2 \<Rightarrow> Inr (comparisonTable @ only1 @ only2))))"

text \<open>
  A well-formed clause analysis of low risk with the given text, as the analyzer
  produces on the fallback path for a text without risk keywords.
\<close>

definition plainClause :: "jstring \<Rightarrow> clauseAnalysis" where
  "plainClause t =
     \<lparr> page = 1, clause = t,
       c_explanation = js ''This appears to be a standard contract clause with no major risk indicators detected.'',
       risk_ai = js ''Low'', risk_rules = js ''Low'', final_risk = js ''Low'',
       c_reason = js ''Rules-based analysis: Standard contract clause'',
       c_keywords = [], important_terms = [] \<rparr>"

text \<open>
  What identifies a clause inside a comparison entry: the full text, the risk and the
  explanation that \<open>getKeyInfo\<close> copies from the clause. \<open>sides1\<close> and \<open>sides2\<close> list
  the clauses shown on the two sides of a table, entry by entry.
\<close>

definition clauseContent :: "clauseAnalysis \<Rightarrow> jstring \<times> jstring \<times> jstring" where
  "clauseContent c = (clause c, final_risk c, c_explanation c)"

definition shownContent :: "keyInfo \<Rightarrow> jstring \<times> jstring \<times> jstring" where
  "shownContent k = (fullText k, risk k, infoExplanation k)"

definition sides1 :: "comparisonEntry list \<Rightarrow> (jstring \<times> jstring \<times> jstring) list" where
  "sides1 table = map shownContent (List.map_filter doc1 table)"

definition sides2 :: "comparisonEntry list \<Rightarrow> (jstring \<times> jstring \<times> jstring) list" where
  "sides2 table = map shownContent (List.map_filter doc2 table)"

text \<open>The matched indices and the sides of the table grow together.\<close>

definition matchedInv :: "clauseAnalysis list \<Rightarrow> nat list \<Rightarrow> (jstring \<times> jstring \<times> jstring) list \<Rightarrow> bool" where
  "matchedInv clauses matched shown =
     (distinct matched \<and> set matched \<subseteq> {..<length clauses}
      \<and> mset shown = mset (map (\<lambda>i. clauseContent (clauses ! i)) matched))"

text \<open>A final risk that the distribution has a bucket for.\<close>

definition knownRisk :: "clauseAnalysis \<Rightarrow> bool" where
  "knownRisk c = (toLowerCase (final_risk c) \<in> {js ''low'', js ''medium'', js ''high''})"

section \<open>Properties of the Risk Rules Engine\<close>

lemma scanKeywords_eq:
  "scanKeywords w t kws (s, d) =
     (s + w * length (filter (\<lambda>k. includesStr t (toLowerCase k)) kws),
      d @ filter (\<lambda>k. includesStr t (toLowerCase k)) kws)"
  unfolding scanKeywords_def
  by (induction kws arbitrary: s d) auto

lemma dedupe_set: "set (dedupe xs) = set xs"
  by (induction xs rule: dedupe.induct) auto

lemma dedupe_distinct: "distinct (dedupe xs)"
  by (induction xs rule: dedupe.induct) (auto simp: dedupe_set)

lemma analyzeRiskByRules_score:
  "riskScore (analyzeRiskByRules t) =
     3 * length (filter (matchesKeyword t) riskKeywords_high)
     + 2 * length (filter (matchesKeyword t) riskKeywords_medium)
     + length (filter (matchesKeyword t) riskKeywords_low)"
  by (simp add: analyzeRiskByRules_def scanKeywords_eq Let_def matchesKeyword_def [abs_def])

lemma analyzeRiskByRules_level:
  "riskLevel (analyzeRiskByRules t) =
     (if 6 \<le> riskScore (analyzeRiskByRules t) then js ''High''
      else if 3 \<le> riskScore (analyzeRiskByRules t) then js ''Medium'' else js ''Low'')"
  by (simp add: analyzeRiskByRules_def scanKeywords_eq Let_def)

lemma analyzeRiskByRules_keywords:
  "distinct (detectedKeywords (analyzeRiskByRules t)) \<and>
   set (detectedKeywords (analyzeRiskByRules t)) =
     {k \<in> set (riskKeywords_high @ riskKeywords_medium @ riskKeywords_low). matchesKeyword t k}"
  by (auto simp: analyzeRiskByRules_def scanKeywords_eq Let_def matchesKeyword_def
      dedupe_set dedupe_distinct)

lemma includesStr_toLowerCase:
  "includesStr t k \<Longrightarrow> includesStr (toLowerCase t) (toLowerCase k)"
  unfolding includesStr_def toLowerCase_def sublist_def
  by (metis map_append concat_append)

lemma two_hits:
  assumes "a \<in> set xs" "b \<in> set xs" "a \<noteq> b" "P a" "P b"
  shows "2 \<le> length (filter P xs)"
proof -
  have "{a, b} \<subseteq> set (filter P xs)" using assms by simp
  then have "card {a, b} \<le> card (set (filter P xs))"
    by (intro card_mono) simp_all
  also have "\<dots> \<le> length (filter P xs)" by (rule card_length)
  finally show ?thesis using assms(3) by simp
qed

lemma penalty_and_guarantee_score:
  assumes "matchesKeyword t (js ''penalty'')" "matchesKeyword t (js ''personal guarantee'')"
  shows "6 \<le> riskScore (analyzeRiskByRules t)"
proof -
  have mem: "js ''penalty'' \<in> set riskKeywords_high"
      "js ''personal guarantee'' \<in> set riskKeywords_high"
    by (simp_all add: riskKeywords_high_def)
  have "js ''penalty'' \<noteq> js ''personal guarantee''" by (simp add: js_def)
  with mem assms have "2 \<le> length (filter (matchesKeyword t) riskKeywords_high)"
    by (intro two_hits [of "js ''penalty''" _ "js ''personal guarantee''"])
  then show ?thesis by (simp add: analyzeRiskByRules_score)
qed

text \<open>A text that contains the two keywords as they are written matches them.\<close>

lemma contains_penalty_and_guarantee:
  assumes "includesStr t (js ''penalty'')" "includesStr t (js ''personal guarantee'')"
  shows "matchesKeyword t (js ''penalty'')" "matchesKeyword t (js ''personal guarantee'')"
proof -
  have lower: "toLowerCase (js ''penalty'') = js ''penalty''"
      "toLowerCase (js ''personal guarantee'') = js ''personal guarantee''"
    by (simp_all add: toLowerCase_def js_def lowerUnits_def)
  show "matchesKeyword t (js ''penalty'')" "matchesKeyword t (js ''personal guarantee'')"
    using assms [THEN includesStr_toLowerCase] by (simp_all add: matchesKeyword_def lower)
qed

text \<open>
  C6: \<open>analyzeRiskByRules\<close> sums weight 3 for every high keyword, 2 for every medium
  keyword and 1 for every low keyword that occurs in the clause text ignoring case; the
  level is High from score 6, Medium from score 3, Low below; the detected keywords are
  the matched ones without duplicates; and a text containing both "penalty" and
  "personal guarantee", in any letter case, scores at least 6 and is rated High.
\<close>

theorem analyzeRiskByRules_spec:
  "riskScore (analyzeRiskByRules t) =
     3 * length (filter (matchesKeyword t) riskKeywords_high)
     + 2 * length (filter (matchesKeyword t) riskKeywords_medium)
     + 1 * length (filter (matchesKeyword t) riskKeywords_low)
   \<and> riskLevel (analyzeRiskByRules t) =
       (if 6 \<le> riskScore (analyzeRiskByRules t) then js ''High''
        else if 3 \<le> riskScore (analyzeRiskByRules t) then js ''Medium'' else js ''Low'')
   \<and> distinct (detectedKeywords (analyzeRiskByRules t))
   \<and> set (detectedKeywords (analyzeRiskByRules t)) =
       {k \<in> set (riskKeywords_high @ riskKeywords_medium @ riskKeywords_low). matchesKeyword t k}
   \<and> (matchesKeyword t (js ''penalty'') \<and> matchesKeyword t (js ''personal guarantee'')
        \<longrightarrow> 6 \<le> riskScore (analyzeRiskByRules t) \<and> riskLevel (analyzeRiskByRules t) = js ''High'')"
proof (intro conjI impI)
  show "riskScore (analyzeRiskByRules t) =
     3 * length (filter (matchesKeyword t) riskKeywords_high)
     + 2 * length (filter (matchesKeyword t) riskKeywords_medium)
     + 1 * length (filter (matchesKeyword t) riskKeywords_low)"
    by (simp add: analyzeRiskByRules_score)
  show "riskLevel (analyzeRiskByRules t) =
       (if 6 \<le> riskScore (analyzeRiskByRules t) then js ''High''
        else if 3 \<le> riskScore (analyzeRiskByRules t) then js ''Medium'' else js ''Low'')"
    by (rule analyzeRiskByRules_level)
  show "distinct (detectedKeywords (analyzeRiskByRules t))"
    using analyzeRiskByRules_keywords by blast
  show "set (detectedKeywords (analyzeRiskByRules t)) =
       {k \<in> set (riskKeywords_high @ riskKeywords_medium @ riskKeywords_low). matchesKeyword t k}"
    using analyzeRiskByRules_keywords by blast
next
  assume h: "matchesKeyword t (js ''penalty'') \<and> matchesKeyword t (js ''personal guarantee'')"
  then show "6 \<le> riskScore (analyzeRiskByRules t)"
    by (simp add: penalty_and_guarantee_score)
  then show "riskLevel (analyzeRiskByRules t) = js ''High''"
    by (simp add: analyzeRiskByRules_level)
qed

theorem analyzeRiskByRules_spec_witness:
  "matchesKeyword (js ''A PENALTY applies under the personal guarantee.'') (js ''penalty'')
   \<and> matchesKeyword (js ''A PENALTY applies under the personal guarantee.'') (js ''personal guarantee'')
   \<and> 6 \<le> riskScore (analyzeRiskByRules (js ''A PENALTY applies under the personal guarantee.''))
   \<and> riskLevel (analyzeRiskByRules (js ''A PENALTY applies under the personal guarantee.'')) = js ''High''"
proof -
  have h: "matchesKeyword (js ''A PENALTY applies under the personal guarantee.'') (js ''penalty'')
     \<and> matchesKeyword (js ''A PENALTY applies under the personal guarantee.'') (js ''personal guarantee'')"
    by code_simp
  with analyzeRiskByRules_spec [of "js ''A PENALTY applies under the personal guarantee.''"]
  show ?thesis by blast
qed

section \<open>Properties of the Clause Analyzer\<close>

lemma riskLevel_isLevel: "isLevel (riskLevel (analyzeRiskByRules t))"
  by (simp add: analyzeRiskByRules_level isLevel_def)

lemma geProp_levels:
  "isLevel a \<Longrightarrow> isLevel b \<Longrightarrow>
   (if geProp (riskLevels a) (riskLevels b) then a else b) = maxLevel a b"
  by (auto simp: isLevel_def riskLevels_def maxLevel_def levelRank_def js_def)

text \<open>
  Where the external level is one of the three level names, and always on the fallback
  path, the fusion is the maximum.
\<close>

lemma analyzeClause_max:
  assumes "isLevel (risk_ai (analyzeClause t p m))"
  shows "final_risk (analyzeClause t p m) =
         maxLevel (risk_rules (analyzeClause t p m)) (risk_ai (analyzeClause t p m))"
  using assms geProp_levels [OF riskLevel_isLevel [of t]]
  by (simp add: analyzeClause_def Let_def)

lemma analyzeClause_fallback:
  assumes "analyzeClauseWithAI m 0 = Inl e"
  shows "risk_ai (analyzeClause t p m) = risk_rules (analyzeClause t p m)
         \<and> final_risk (analyzeClause t p m) = risk_rules (analyzeClause t p m)
         \<and> isLevel (final_risk (analyzeClause t p m))"
  using assms riskLevel_isLevel [of t]
  by (auto simp: analyzeClause_def Let_def isLevel_def riskLevels_def js_def)

lemma analyzeClause_final_isLevel:
  assumes "isLevel (risk_ai (analyzeClause t p m))"
  shows "isLevel (final_risk (analyzeClause t p m))"
  using assms riskLevel_isLevel [of t]
  by (auto simp: analyzeClause_def Let_def)

text \<open>
  C2: the fusion is not the maximum when the external model names its level in another
  spelling. The rules rate this clause High (score 6), the model answers
  \<open>"risk_level": "low"\<close>, and the final risk is the string \<open>low\<close>: the comparison
  \<open>riskLevels[rulesRisk] >= riskLevels[aiRisk]\<close> reads an undefined property and is false.
\<close>

theorem analyzeClause_unknown_external_level:
  "risk_rules (analyzeClause (js ''A penalty applies under the personal guarantee.'') 1
       (alwaysReplies (JsonObject None (Some (js ''low'')) None None))) = js ''High''
   \<and> risk_ai (analyzeClause (js ''A penalty applies under the personal guarantee.'') 1
       (alwaysReplies (JsonObject None (Some (js ''low'')) None None))) = js ''low''
   \<and> final_risk (analyzeClause (js ''A penalty applies under the personal guarantee.'') 1
       (alwaysReplies (JsonObject None (Some (js ''low'')) None None))) = js ''low''"
proof -
  let ?t = "js ''A penalty applies under the personal guarantee.''"
  let ?m = "alwaysReplies (JsonObject None (Some (js ''low'')) None None)"
  have "includesStr ?t (js ''penalty'')" "includesStr ?t (js ''personal guarantee'')"
    by code_simp+
  then have "matchesKeyword ?t (js ''penalty'')" "matchesKeyword ?t (js ''personal guarantee'')"
    by (rule contains_penalty_and_guarantee)+
  then have "6 \<le> riskScore (analyzeRiskByRules ?t)"
    by (rule penalty_and_guarantee_score)
  then have rules: "riskLevel (analyzeRiskByRules ?t) = js ''High''"
    by (simp add: analyzeRiskByRules_level)
  have ai: "analyzeClauseWithAI ?m 0 =
      Inr \<lparr> explanation = js ''Unable to generate explanation'', ai_riskLevel = js ''low'',
            reason = js ''Unable to determine risk reason'', importantTerms = [] \<rparr>"
    by (simp add: analyzeClauseWithAI.simps makeRateLimitedRequest_def alwaysReplies_def js_def)
  have cmp: "\<not> geProp (riskLevels (js ''High'')) (riskLevels (js ''low''))"
    by (simp add: riskLevels_def objectPrototypeNames_def js_def)
  show ?thesis
    by (simp add: analyzeClause_def Let_def rules ai cmp)
qed

section \<open>Properties of the risk distribution\<close>

lemma fold_countRisk_sum:
  "low (fold countRisk cs d) + medium (fold countRisk cs d) + high (fold countRisk cs d)
     = low d + medium d + high d + length (filter knownRisk cs)"
  by (induction cs arbitrary: d) (auto simp: countRisk_def knownRisk_def Let_def)

lemma riskDistribution_counts_known:
  "low (riskDistribution cs) + medium (riskDistribution cs) + high (riskDistribution cs)
     = length (filter knownRisk cs)"
  by (simp add: riskDistribution_def fold_countRisk_sum)

lemma isLevel_knownRisk: "isLevel (final_risk c) \<Longrightarrow> knownRisk c"
  by (auto simp: isLevel_def knownRisk_def toLowerCase_def js_def lowerUnits_def)

lemma makeRateLimitedRequest_isl: "isl (makeRateLimitedRequest r) = isl r"
  by (cases r) (simp_all add: makeRateLimitedRequest_def)

text \<open>When every call is rejected, the external analysis fails, whatever the retries.\<close>

lemma analyzeClauseWithAI_all_fail:
  assumes "\<forall>n. isl (model n)"
  shows "isl (analyzeClauseWithAI model k)"
  using assms
proof (induction model k rule: analyzeClauseWithAI.induct)
  case (1 model retryCount)
  obtain e where e: "makeRateLimitedRequest (model retryCount) = Inl e"
    using "1.prems" makeRateLimitedRequest_isl [of "model retryCount"]
    by (cases "makeRateLimitedRequest (model retryCount)") auto
  show ?case
    using e "1.IH" [OF e] "1.prems"
    by (subst analyzeClauseWithAI.simps) simp
qed

lemma externalLevelOk_all_fail:
  assumes "\<forall>n. isl (model n)"
  shows "externalLevelOk model"
  using analyzeClauseWithAI_all_fail [OF assms, of 0]
  by (cases "analyzeClauseWithAI model 0") (simp_all add: externalLevelOk_def)

lemma analyzeClause_unknown_level:
  assumes "analyzeClauseWithAI m 0 = Inr a" "\<not> isLevel (ai_riskLevel a)"
  shows "final_risk (analyzeClause t p m) = ai_riskLevel a"
proof -
  have "\<not> geProp x (riskLevels (ai_riskLevel a))" for x
    using assms(2) by (cases x) (auto simp: riskLevels_def isLevel_def)
  then show ?thesis using assms(1) by (simp add: analyzeClause_def Let_def)
qed

lemma analyzeClause_externalLevelOk:
  assumes "externalLevelOk m"
  shows "isLevel (final_risk (analyzeClause t p m))"
proof (cases "analyzeClauseWithAI m 0")
  case (Inl e)
  then show ?thesis using analyzeClause_fallback by blast
next
  case (Inr a)
  then have "isLevel (risk_ai (analyzeClause t p m))"
    using assms by (simp add: externalLevelOk_def analyzeClause_def Let_def)
  then show ?thesis by (rule analyzeClause_final_isLevel)
qed

lemma length_analyzeLoop: "length (analyzeLoop n pages models i cp texts) = length texts"
  by (induction texts arbitrary: i cp) simp_all

lemma analyzeLoop_levels:
  assumes "\<forall>j<length texts. externalLevelOk (models (i + j))"
  shows "\<forall>c\<in>set (analyzeLoop n pages models i cp texts). isLevel (final_risk c)"
  using assms
proof (induction texts arbitrary: i cp)
  case Nil
  then show ?case by simp
next
  case (Cons t texts)
  have head: "externalLevelOk (models i)" using Cons.prems by force
  have "\<forall>j<length texts. externalLevelOk (models (Suc i + j))"
    using Cons.prems by force
  then have tail: "\<forall>c\<in>set (analyzeLoop n pages models (Suc i) cp' texts). isLevel (final_risk c)" for cp'
    by (rule Cons.IH)
  show ?case using head tail by (simp add: analyzeClause_externalLevelOk)
qed

lemma riskDistribution_all_levels:
  assumes "\<forall>c\<in>set cs. isLevel (final_risk c)"
  shows "low (riskDistribution cs) + medium (riskDistribution cs) + high (riskDistribution cs)
         = length cs"
proof -
  have "filter knownRisk cs = cs"
    using assms by (simp add: isLevel_knownRisk)
  then show ?thesis by (simp add: riskDistribution_counts_known)
qed

text \<open>
  When every clause's external verdict names one of Low, Medium, High, or is replaced
  by the fallback verdict, the three counts of the document built by the clause loop
  sum to the number of clauses, one clause per segment.
\<close>

lemma riskDistribution_sum_of_levels:
  assumes "\<forall>i<length texts. externalLevelOk (models i)"
  shows "low (riskDistribution (analyzeClauses pages models texts))
         + medium (riskDistribution (analyzeClauses pages models texts))
         + high (riskDistribution (analyzeClauses pages models texts))
         = length (analyzeClauses pages models texts)
         \<and> length (analyzeClauses pages models texts) = length texts"
proof -
  have "\<forall>c\<in>set (analyzeClauses pages models texts). isLevel (final_risk c)"
    unfolding analyzeClauses_def using assms by (intro analyzeLoop_levels) simp
  then show ?thesis
    by (simp add: riskDistribution_all_levels) (simp add: analyzeClauses_def length_analyzeLoop)
qed

text \<open>
  An analysis that the save accepts has every final risk among the three levels, so
  its three counts sum to the number of its clauses: the invariant holds of every
  analysis that is stored or returned.
\<close>

lemma riskEnum_isLevel: "r \<in> set riskEnum \<longleftrightarrow> isLevel r"
  by (auto simp: riskEnum_def isLevel_def)

lemma analyzeRoute_stored_sum:
  assumes "analyzeRoute pages models texts = Inr a"
  shows "low (a_riskDistribution a) + medium (a_riskDistribution a) + high (a_riskDistribution a)
           = length (a_clauses a)
         \<and> a_totalClauses a = length (a_clauses a)
         \<and> length (a_clauses a) = length texts"
proof -
  let ?b = "buildAnalysis pages models texts"
  have ok: "list_all validClause (a_clauses ?b)" and a: "a = ?b"
    using assms by (auto simp: analyzeRoute_def saveDocument_def split: if_splits)
  have "\<forall>c\<in>set (a_clauses ?b). isLevel (final_risk c)"
    using ok by (auto simp: list_all_iff validClause_def riskEnum_isLevel)
  then have "low (riskDistribution (a_clauses ?b)) + medium (riskDistribution (a_clauses ?b))
      + high (riskDistribution (a_clauses ?b)) = length (a_clauses ?b)"
    by (rule riskDistribution_all_levels)
  then show ?thesis
    unfolding a by (simp add: buildAnalysis_def Let_def analyzeClauses_def length_analyzeLoop)
qed

text \<open>
  C7: one clause whose external verdict is the level name \<open>Critical\<close>. The external level
  is taken over unchecked (the defect of C2), so \<open>final_risk\<close> is \<open>Critical\<close>, which
  \<open>hasOwnProperty\<close> keeps out of all three buckets: the analysis that the route builds has
  one clause and the counts 0, 0, 0. The save then rejects it, because \<open>Critical\<close> is not
  among the \<open>enum\<close> values of \<open>final_risk\<close>, and the request ends with an error.
\<close>

theorem analysis_unknown_external_level:
  "map final_risk (a_clauses (buildAnalysis 1
       (repliesFirstOnly (JsonObject None (Some (js ''Critical'')) None None) (Error (js ''429'')))
       [js ''Rent is due monthly.''])) = [js ''Critical'']
   \<and> a_totalClauses (buildAnalysis 1
       (repliesFirstOnly (JsonObject None (Some (js ''Critical'')) None None) (Error (js ''429'')))
       [js ''Rent is due monthly.'']) = 1
   \<and> a_riskDistribution (buildAnalysis 1
       (repliesFirstOnly (JsonObject None (Some (js ''Critical'')) None None) (Error (js ''429'')))
       [js ''Rent is due monthly.'']) = \<lparr> low = 0, medium = 0, high = 0 \<rparr>
   \<and> analyzeRoute 1
       (repliesFirstOnly (JsonObject None (Some (js ''Critical'')) None None) (Error (js ''429'')))
       [js ''Rent is due monthly.''] = Inl (ValidationError (js ''Document validation failed''))"
proof -
  let ?m = "alwaysReplies (JsonObject None (Some (js ''Critical'')) None None)"
  let ?c = "analyzeClause (js ''Rent is due monthly.'') 1 ?m"
  have ai: "analyzeClauseWithAI ?m 0 =
      Inr \<lparr> explanation = js ''Unable to generate explanation'', ai_riskLevel = js ''Critical'',
            reason = js ''Unable to determine risk reason'', importantTerms = [] \<rparr>"
    by (simp add: analyzeClauseWithAI.simps makeRateLimitedRequest_def alwaysReplies_def js_def)
  have no: "\<not> isLevel (js ''Critical'')" by (simp add: isLevel_def js_def)
  with ai have fr: "final_risk ?c = js ''Critical''"
    using analyzeClause_unknown_level by fastforce
  have cs: "analyzeClauses 1
       (repliesFirstOnly (JsonObject None (Some (js ''Critical'')) None None) (Error (js ''429'')))
       [js ''Rent is due monthly.''] = [?c]"
    by (simp add: analyzeClauses_def repliesFirstOnly_def)
  have "toLowerCase (js ''Critical'') = js ''critical''"
    by (simp add: toLowerCase_def lowerUnits_def js_def)
  then have dist: "riskDistribution [?c] = \<lparr> low = 0, medium = 0, high = 0 \<rparr>"
    using fr by (simp add: riskDistribution_def countRisk_def Let_def js_def)
  have bad: "\<not> validClause ?c"
    using fr no by (simp add: validClause_def riskEnum_isLevel)
  show ?thesis
    unfolding analyzeRoute_def saveDocument_def buildAnalysis_def Let_def cs
    using fr dist bad by simp
qed

section \<open>Properties of the regular expressions\<close>

lemma ms_suffix: "s' \<in> set (ms r s) \<Longrightarrow> suffix s' s"
proof (induction r s arbitrary: s' rule: ms.induct)
  case (1 p s)
  then show ?case by (cases s) (auto split: if_splits simp: suffix_Cons)
next
  case (2 s)
  then show ?case by simp
next
  case (3 a b s)
  from "3.prems" obtain s0 where s0: "s0 \<in> set (ms a s)" "s' \<in> set (ms b s0)" by auto
  have "suffix s0 s" using s0(1) by (rule "3.IH"(1))
  moreover have "suffix s' s0" using s0 by (rule "3.IH"(2))
  ultimately show ?case by (rule suffix_order.trans [rotated])
next
  case (4 a b s)
  then show ?case by auto
next
  case (5 a s)
  from "5.prems" consider "s' = s"
    | s0 where "s0 \<in> set (ms a s)" "length s0 < length s" "s' \<in> set (ms (Star a) s0)"
    by (subst (asm) ms.simps(5)) (auto split: if_splits)
  then show ?case
  proof cases
    case 1
    then show ?thesis by simp
  next
    case 2
    have "suffix s0 s" using 2(1) by (rule "5.IH"(1))
    moreover have "suffix s' s0" using 2 by (rule "5.IH"(2))
    ultimately show ?thesis by (rule suffix_order.trans [rotated])
  qed
next
  case (6 a s)
  from "6.prems" consider "s' = s"
    | s0 where "s0 \<in> set (ms a s)" "length s0 < length s" "s' \<in> set (ms (LazyStar a) s0)"
    by (subst (asm) ms.simps(6)) (auto split: if_splits)
  then show ?case
  proof cases
    case 1
    then show ?thesis by simp
  next
    case 2
    have "suffix s0 s" using 2(1) by (rule "6.IH"(1))
    moreover have "suffix s' s0" using 2 by (rule "6.IH"(2))
    ultimately show ?thesis by (rule suffix_order.trans [rotated])
  qed
qed

lemma ms_chr_absent: "c \<notin> set s \<Longrightarrow> ms (chr c) s = []"
  by (cases s) (auto simp: chr_def)

lemma ms_Seq_empty: "(\<And>s'. s' \<in> set (ms a s) \<Longrightarrow> ms b s' = []) \<Longrightarrow> ms (Seq a b) s = []"
  by simp

lemma ms_needs_char:
  assumes "c \<notin> set s"
  shows "ms (Seq (chr c) r) s = []"
  using assms by (simp add: ms_chr_absent)

lemma ms_after_needs_char:
  assumes "c \<notin> set s"
  shows "ms (Seq a (Seq (chr c) r)) s = []"
proof (rule ms_Seq_empty)
  fix s' assume "s' \<in> set (ms a s)"
  then have "suffix s' s" by (rule ms_suffix)
  then have "c \<notin> set s'" using assms by (auto simp: suffix_def)
  then show "ms (Seq (chr c) r) s' = []" by (rule ms_needs_char)
qed

lemma ms_after2_needs_char:
  assumes "c \<notin> set s"
  shows "ms (Seq a (Seq b (Seq (chr c) r))) s = []"
proof (rule ms_Seq_empty)
  fix s' assume "s' \<in> set (ms a s)"
  then have "suffix s' s" by (rule ms_suffix)
  then have "c \<notin> set s'" using assms by (auto simp: suffix_def)
  then show "ms (Seq b (Seq (chr c) r)) s' = []" by (rule ms_after_needs_char)
qed

lemma indicators_need_newline:
  assumes "r \<in> set clauseIndicators" "10 \<notin> set s"
  shows "matchAt r s = None"
proof -
  from assms(1) consider x where "r = Seq (chr 10) x" | a b x where "r = Seq a (Seq b (Seq (chr 10) x))"
    unfolding clauseIndicators_def by auto
  then have "ms r s = []"
  proof cases
    case 1
    then show ?thesis using ms_needs_char [OF assms(2)] by blast
  next
    case 2
    then show ?thesis using ms_after2_needs_char [OF assms(2)] by blast
  qed
  then show ?thesis by (simp add: matchAt_def)
qed

lemma splitRe_no_match:
  assumes "\<And>s'. suffix s' s \<Longrightarrow> matchAt r s' = None"
  shows "splitRe r acc s = [rev acc @ s]"
  using assms
proof (induction s arbitrary: acc)
  case Nil
  then show ?case by simp
next
  case (Cons c cs)
  have here: "matchAt r (c # cs) = None" using Cons.prems by blast
  have "\<And>s'. suffix s' cs \<Longrightarrow> matchAt r s' = None"
    using Cons.prems by (simp add: suffix_Cons)
  then have "splitRe r (c # acc) cs = [rev (c # acc) @ cs]" by (rule Cons.IH)
  then show ?case using here by simp
qed

lemma splitRe_indicator:
  assumes "r \<in> set clauseIndicators" "10 \<notin> set s"
  shows "splitRe r [] s = [s]"
proof -
  have "matchAt r s' = None" if "suffix s' s" for s'
  proof -
    from that have "10 \<notin> set s'" using assms(2) by (auto simp: suffix_def)
    with assms(1) show ?thesis by (rule indicators_need_newline)
  qed
  then show ?thesis using splitRe_no_match [of s r "[]"] by simp
qed

lemma applyIndicator_single:
  assumes "r \<in> set clauseIndicators" "10 \<notin> set s" "trim s \<noteq> []"
  shows "applyIndicator [s] r = [s]"
  using assms by (simp add: applyIndicator_def splitRe_indicator)

lemma fold_applyIndicator:
  assumes "set rs \<subseteq> set clauseIndicators" "10 \<notin> set s" "trim s \<noteq> []"
  shows "fold (\<lambda>pattern clauses. applyIndicator clauses pattern) rs [s] = [s]"
  using assms by (induction rs) (simp_all add: applyIndicator_single)

section \<open>Properties of whitespace normalisation\<close>


lemma singleSp_nonspace: "\<not> isSpace c \<Longrightarrow> singleSp (c # cs) = singleSp cs"
  by (cases cs) simp_all


lemma collapseRuns_nonmember:
  "\<not> p d \<Longrightarrow> collapseRuns p r (d # cs) = d # collapseRuns p r cs"
  by (cases cs) simp_all

lemma isSpace_32: "isSpace 32"
  by (simp add: isSpace_def)

lemma isSpace_10: "isSpace 10"
  by (simp add: isSpace_def)

lemma collapseRuns_singleSp: "singleSp (collapseRuns isSpace 32 t)"
proof (induction isSpace "32::nat" t rule: collapseRuns.induct)
  case 1
  then show ?case by simp
next
  case (2 c)
  then show ?case by simp
next
  case (3 c d cs)
  show ?case
  proof (cases "isSpace c")
    case True
    then show ?thesis using 3 by (auto simp: collapseRuns_nonmember)
  next
    case False
    then show ?thesis using 3 by (simp add: singleSp_nonspace)
  qed
qed

lemma collapseRuns_id: "\<forall>c\<in>set s. \<not> p c \<Longrightarrow> collapseRuns p r s = s"
  by (induction p r s rule: collapseRuns.induct) auto

lemma singleSp_no_newline: "singleSp s \<Longrightarrow> 10 \<notin> set s"
proof (induction s rule: singleSp.induct)
  case 1
  then show ?case by simp
next
  case (2 c)
  then show ?case using isSpace_10 by auto
next
  case (3 c d cs)
  then show ?case using isSpace_10 by auto
qed

lemma collapseRuns_blank:
  "(\<forall>c\<in>set (collapseRuns isSpace 32 t). isSpace c) = (\<forall>c\<in>set t. isSpace c)"
  by (induction isSpace "32::nat" t rule: collapseRuns.induct) (auto simp: isSpace_32)

lemma singleSp_append: "singleSp (xs @ ys) \<Longrightarrow> singleSp xs \<and> singleSp ys"
proof (induction xs rule: singleSp.induct)
  case 1
  then show ?case by simp
next
  case (2 c)
  then show ?case by (cases ys) auto
next
  case (3 c d cs)
  then show ?case by auto
qed

lemma rev_dropWhile_rev:
  "u = rev (dropWhile p (rev u)) @ rev (takeWhile p (rev u))"
proof -
  have "rev (dropWhile p (rev u)) @ rev (takeWhile p (rev u))
        = rev (takeWhile p (rev u) @ dropWhile p (rev u))"
    by (simp only: rev_append)
  also have "\<dots> = rev (rev u)" by (simp only: takeWhile_dropWhile_id)
  finally show ?thesis by simp
qed

lemma trim_decomp:
  "\<exists>p q. s = p @ trim s @ q"
proof -
  let ?u = "dropWhile isSpace s"
  have "?u = trim s @ rev (takeWhile isSpace (rev ?u))"
    unfolding trim_def by (rule rev_dropWhile_rev)
  moreover have "s = takeWhile isSpace s @ ?u" by simp
  ultimately show ?thesis by metis
qed

lemma singleSp_trim: "singleSp s \<Longrightarrow> singleSp (trim s)"
  using trim_decomp [of s] by (metis singleSp_append)

lemma trim_subset: "set (trim s) \<subseteq> set s"
  using trim_decomp [of s] by (metis Un_upper1 Un_upper2 set_append subset_trans)

lemma trim_blank: "(trim s = []) = (\<forall>c\<in>set s. isSpace c)"
proof
  let ?u = "dropWhile isSpace s"
  assume "trim s = []"
  then have a: "\<forall>c\<in>set ?u. isSpace c"
    by (simp add: trim_def)
  show "\<forall>c\<in>set s. isSpace c"
  proof (rule ccontr)
    assume "\<not> (\<forall>c\<in>set s. isSpace c)"
    then have ne: "?u \<noteq> []" by simp
    then have "\<not> isSpace (hd ?u)" by (rule hd_dropWhile)
    moreover have "hd ?u \<in> set ?u" using ne by (rule hd_in_set)
    ultimately show False using a by blast
  qed
next
  assume "\<forall>c\<in>set s. isSpace c"
  then have "dropWhile isSpace s = []" by simp
  then show "trim s = []" unfolding trim_def by (simp only: rev.simps dropWhile.simps)
qed

lemma trim_ends:
  assumes "trim s \<noteq> []"
  shows "\<not> isSpace (hd (trim s)) \<and> \<not> isSpace (last (trim s))"
proof -
  let ?u = "dropWhile isSpace s"
  let ?v = "dropWhile isSpace (rev ?u)"
  have v: "?v \<noteq> []" using assms by (simp add: trim_def)
  then have "\<not> isSpace (hd ?v)" by (rule hd_dropWhile)
  then have l: "\<not> isSpace (last (trim s))" using v by (simp add: trim_def last_rev)
  have u: "?u \<noteq> []"
  proof
    assume "?u = []"
    then have "?v = []" by (simp only: rev.simps dropWhile.simps)
    with v show False by simp
  qed
  then have hu: "\<not> isSpace (hd ?u)" by (rule hd_dropWhile)
  have "?u = trim s @ rev (takeWhile isSpace (rev ?u))"
    unfolding trim_def by (rule rev_dropWhile_rev)
  then have "hd ?u = hd (trim s)" using assms by (metis hd_append2)
  with hu l show ?thesis by simp
qed

lemma trim_id:
  assumes "s \<noteq> []" "\<not> isSpace (hd s)" "\<not> isSpace (last s)"
  shows "trim s = s"
proof -
  have "dropWhile isSpace s = s" using assms(1,2) by (cases s) simp_all
  moreover have "dropWhile isSpace (rev s) = rev s"
    using assms(1,3) by (cases "rev s") (simp_all add: hd_rev [symmetric])
  ultimately show ?thesis by (simp add: trim_def)
qed

text \<open>The normalised text of a document that is not blank.\<close>

lemma cleanText_eq: "cleanText t = trim (collapseRuns isSpace 32 t)"
proof -
  have "10 \<notin> set (collapseRuns isSpace 32 t)"
    by (simp add: singleSp_no_newline collapseRuns_singleSp)
  then have "\<forall>c\<in>set (collapseRuns isSpace 32 t). \<not> c = 10" by auto
  then have "collapseRuns (\<lambda>c. c = 10) 10 (collapseRuns isSpace 32 t) = collapseRuns isSpace 32 t"
    by (rule collapseRuns_id)
  then show ?thesis by (simp add: cleanText_def)
qed


lemma cleanText_normal:
  assumes "trim t \<noteq> []"
  shows "cleanText t \<noteq> [] \<and> singleSp (cleanText t) \<and> 10 \<notin> set (cleanText t)
         \<and> \<not> isSpace (hd (cleanText t)) \<and> \<not> isSpace (last (cleanText t))
         \<and> trim (cleanText t) = cleanText t"
proof -
  have ne: "cleanText t \<noteq> []"
    using assms by (simp add: cleanText_eq trim_blank collapseRuns_blank)
  have sp: "singleSp (cleanText t)"
    by (simp add: cleanText_eq singleSp_trim collapseRuns_singleSp)
  have ends: "\<not> isSpace (hd (cleanText t)) \<and> \<not> isSpace (last (cleanText t))"
    using ne trim_ends by (simp add: cleanText_eq)
  show ?thesis
    using ne sp ends by (simp add: singleSp_no_newline trim_id)
qed

section \<open>Properties of word splitting and joining\<close>


lemma splitWsAcc_nonempty: "splitWsAcc acc s \<noteq> []"
  by (induction acc s rule: splitWsAcc.induct) auto











section \<open>Properties of the Clause Segmenter\<close>

lemma sliceLoop_terminates:
  assumes "1 \<le> k"
  shows "\<exists>res. sliceLoop ws k i acc = Some res"
proof (induction "length ws - i" arbitrary: i acc rule: less_induct)
  case less
  show ?case
  proof (cases "i < length ws")
    case True
    then have "length ws - (i + k) < length ws - i" using assms by arith
    then have "\<exists>res. sliceLoop ws k (i + k) acc' = Some res" for acc'
      by (rule less)
    then show ?thesis using True
      by (subst sliceLoop.simps) (simp add: Let_def)
  next
    case False
    then show ?thesis by (subst sliceLoop.simps) simp
  qed
qed

lemma sliceLoop_stuck:
  assumes "sliceLoop ws k i acc = Some y"
  shows "\<not> (k = 0 \<and> i < length ws)"
proof (rule sliceLoop.raw_induct
    [where P = "\<lambda>ws k i acc y. \<not> (k = 0 \<and> i < length ws)", OF _ assms])
  fix loop :: "jstring list \<Rightarrow> nat \<Rightarrow> nat \<Rightarrow> clauseUnit list \<Rightarrow> clauseUnit list option"
  fix ws k i acc y
  assume IH: "\<And>ws k i acc y. loop ws k i acc = Some y \<Longrightarrow> \<not> (k = 0 \<and> i < length ws)"
  assume body: "(if i < length ws
      then let chunk = joinStr (js '' '') (take k (drop i ws))
           in loop ws k (i + k)
               (if 0 < length (trim chunk)
                then acc @ [unitOf (length acc) chunk]
                else acc)
      else Some acc) = Some y"
  show "\<not> (k = 0 \<and> i < length ws)"
  proof
    assume stuck: "k = 0 \<and> i < length ws"
    then obtain acc' where "loop ws 0 i acc' = Some y"
      using body by (auto simp: Let_def split: if_splits)
    then have "\<not> (0 = (0::nat) \<and> i < length ws)" by (rule IH)
    with stuck show False by simp
  qed
qed

lemma sliceLoop_diverges: "i < length ws \<Longrightarrow> sliceLoop ws 0 i acc = None"
  using sliceLoop_stuck [of ws 0 i acc] by (cases "sliceLoop ws 0 i acc") auto

lemma sliceClauses_terminates:
  assumes "1 \<le> (10 * maxTokens) div 13"
  shows "\<exists>res. sliceClauses maxTokens clauses acc = Some res"
proof (induction clauses arbitrary: acc)
  case Nil
  then show ?case by simp
next
  case (Cons clause rest)
  obtain res where "sliceLoop (splitWs (trim clause)) ((10 * maxTokens) div 13) 0 acc = Some res"
    using sliceLoop_terminates [OF assms] by blast
  then show ?case using Cons.IH by (simp add: Let_def)
qed

lemma splitWs_length: "1 \<le> length (splitWs s)"
  using splitWsAcc_nonempty [of "[]" s] by (cases "splitWs s") (simp_all add: splitWs_def)

lemma splitIntoClause_nonblank:
  assumes "trim t \<noteq> []"
  shows "splitIntoClause t maxTokens = sliceClauses maxTokens [cleanText t] []"
proof -
  note n = cleanText_normal [OF assms]
  have "fold (\<lambda>pattern clauses. applyIndicator clauses pattern) clauseIndicators [cleanText t]
        = [cleanText t]"
    using n by (intro fold_applyIndicator) simp_all
  then show ?thesis using assms by (simp add: splitIntoClause_def)
qed

text \<open>
  C10: with a chunk size of at least one word the splitter returns, in particular with
  the default \<open>maxTokens = 1000\<close>; with \<open>maxTokens \<le> 1\<close> the chunk size is 0 and on every
  text that is not blank the slicing loop never ends.
\<close>

theorem splitIntoClause_total:
  "(1 \<le> (10 * maxTokens) div 13 \<longrightarrow> (\<exists>clauses. splitIntoClause t maxTokens = Some clauses))
   \<and> (\<exists>clauses. splitIntoClause t 1000 = Some clauses)
   \<and> (maxTokens \<le> 1 \<and> trim t \<noteq> [] \<longrightarrow>
        (10 * maxTokens) div 13 = 0 \<and> splitIntoClause t maxTokens = None)"
proof (intro conjI impI)
  assume "1 \<le> (10 * maxTokens) div 13"
  then show "\<exists>clauses. splitIntoClause t maxTokens = Some clauses"
    using sliceClauses_terminates by (simp add: splitIntoClause_def)
next
  have "1 \<le> (10 * (1000::nat)) div 13" by simp
  then show "\<exists>clauses. splitIntoClause t 1000 = Some clauses"
    using sliceClauses_terminates by (simp add: splitIntoClause_def)
next
  assume h: "maxTokens \<le> 1 \<and> trim t \<noteq> []"
  then show k: "(10 * maxTokens) div 13 = 0" by simp
  let ?ws = "splitWs (trim (cleanText t))"
  have long: "\<not> 13 * length ?ws \<le> 10 * maxTokens"
    using h splitWs_length [of "trim (cleanText t)"] by arith
  have "0 < length ?ws" using splitWs_length [of "trim (cleanText t)"] by arith
  then have "sliceLoop ?ws 0 0 [] = None" by (rule sliceLoop_diverges)
  then have "sliceClauses maxTokens [cleanText t] [] = None"
    using long k by (simp add: Let_def)
  then show "splitIntoClause t maxTokens = None"
    using h by (simp add: splitIntoClause_nonblank)
qed

theorem splitIntoClause_total_witness:
  "1 \<le> (10 * (2::nat)) div 13
   \<and> (\<exists>clauses. splitIntoClause (js ''Rent is due. Notice is one month.'') 2 = Some clauses)
   \<and> (1::nat) \<le> 1 \<and> trim (js ''Rent is due.'') \<noteq> []
   \<and> splitIntoClause (js ''Rent is due.'') 1 = None"
proof -
  have a: "1 \<le> (10 * (2::nat)) div 13" by simp
  have b: "(1::nat) \<le> 1 \<and> trim (js ''Rent is due.'') \<noteq> []"
    by (simp add: trim_def js_def isSpace_def)
  from a b splitIntoClause_total [of 2 "js ''Rent is due. Notice is one month.''"]
    splitIntoClause_total [of 1 "js ''Rent is due.''"]
  show ?thesis by blast
qed









text \<open>A text without a line feed has no clause marker: every indicator needs one.\<close>

lemma no_line_feed_markerFree: "10 \<notin> set t \<Longrightarrow> markerFree t"
  by (simp add: markerFree_def list_all_iff splitRe_indicator)






section \<open>The two inputs\<close>










section \<open>The scenario of the specification\<close>

lemma scenarioText_clean:
  "cleanText scenarioText = js ''1. Rent is Rs. 15,000 per month. 2. Notice period is 1 month.''"
  by (simp add: cleanText_eq scenarioText_def js_def isSpace_def trim_def)

lemma scenarioText_words:
  "length (splitWs (js ''1. Rent is Rs. 15,000 per month. 2. Notice period is 1 month.'')) = 13"
  by (simp add: splitWs_def js_def isSpace_def)

lemma scenarioText_nonblank: "trim scenarioText \<noteq> []"
proof -
  have "49 \<in> set scenarioText \<and> \<not> isSpace 49"
    by (simp add: scenarioText_def js_def isSpace_def)
  then show ?thesis using trim_blank by blast
qed

lemma scenario_rules:
  "analyzeRiskByRules (js ''1. Rent is Rs. 15,000 per month. 2. Notice period is 1 month.'')
   = \<lparr> riskLevel = js ''Low'', riskScore = 2, detectedKeywords = [js ''notice period''] \<rparr>"
  by code_simp

text \<open>
  With its line feed intact the scenario text is split by the first indicator, the
  numbered-clause pattern, into two pieces; the marker "2. " is dropped.
\<close>

lemma scenario_with_line_feed:
  "applyIndicator [scenarioText] (hd clauseIndicators) =
     [js ''1. Rent is Rs. 15,000 per month.'', js ''Notice period is 1 month.'']"
  by (simp add: applyIndicator_def clauseIndicators_def scenarioText_def js_def
      matchAt_def chr_def plus_def space_def digit_def isSpace_def isDigit_def trim_def
      ms.simps(5))

text \<open>
  C3: the scenario text is one clause, not two. \<open>replace(/\s+/g, ' ')\<close> turns the
  line feed into a space before any indicator is tried, and every indicator needs a
  line feed. The one clause contains the medium keyword "notice period": its score is
  2, its rules level is Low, and so is its final risk when the external call fails.
\<close>

theorem scenario_is_one_clause:
  "splitIntoClause scenarioText 1000 =
     Some [\<lparr> index = 0,
             unitText = js ''1. Rent is Rs. 15,000 per month. 2. Notice period is 1 month.'',
             wordCount = 13, estimatedTokens = 17 \<rparr>]
   \<and> analyzeRiskByRules (js ''1. Rent is Rs. 15,000 per month. 2. Notice period is 1 month.'')
       = \<lparr> riskLevel = js ''Low'', riskScore = 2, detectedKeywords = [js ''notice period''] \<rparr>
   \<and> final_risk (analyzeClause (js ''1. Rent is Rs. 15,000 per month. 2. Notice period is 1 month.'') 1
         (alwaysThrows (Error (js ''429'')))) = js ''Low''"
proof -
  let ?x = "js ''1. Rent is Rs. 15,000 per month. 2. Notice period is 1 month.''"
  have "trim ?x = ?x"
    using cleanText_normal [OF scenarioText_nonblank] by (simp add: scenarioText_clean)
  then have "sliceClauses 1000 [?x] [] =
     Some [\<lparr> index = 0, unitText = ?x, wordCount = 13, estimatedTokens = 17 \<rparr>]"
    by (simp add: Let_def scenarioText_words)
  then have split: "splitIntoClause scenarioText 1000 =
     Some [\<lparr> index = 0, unitText = ?x, wordCount = 13, estimatedTokens = 17 \<rparr>]"
    using splitIntoClause_nonblank [OF scenarioText_nonblank, of 1000]
    by (simp add: scenarioText_clean)
  have "isl (analyzeClauseWithAI (alwaysThrows (Error (js ''429''))) 0)"
    by (rule analyzeClauseWithAI_all_fail) (simp add: alwaysThrows_def)
  then obtain e where "analyzeClauseWithAI (alwaysThrows (Error (js ''429''))) 0 = Inl e"
    by (cases "analyzeClauseWithAI (alwaysThrows (Error (js ''429''))) 0") auto
  then have "final_risk (analyzeClause ?x 1 (alwaysThrows (Error (js ''429''))))
      = risk_rules (analyzeClause ?x 1 (alwaysThrows (Error (js ''429''))))"
    using analyzeClause_fallback by blast
  also have "\<dots> = riskLevel (analyzeRiskByRules ?x)"
    by (simp add: analyzeClause_def Let_def)
  also have "\<dots> = js ''Low''" by (simp add: scenario_rules)
  finally show ?thesis using split scenario_rules by blast
qed

section \<open>Properties of the Document Summarizer\<close>

lemma generateDocumentSummary_returns: "\<exists>d. generateDocumentSummary reply = Inr d"
  by (auto simp: generateDocumentSummary_def split: sum.splits summary_text.splits)

lemma generateDocumentSummary_failure:
  "generateDocumentSummary (Inl e) =
     Inr \<lparr> key_findings = Some [js ''Unable to generate summary''],
           recommendations = Some [js ''Manual review recommended''],
           overall_risk = Some (js ''Medium''),
           summary = Some (js ''Summary generation failed.'') \<rparr>"
  by (simp add: generateDocumentSummary_def makeRateLimitedRequest_def)

lemma rulesBasedSummary_first:
  "hd (orEmpty (key_findings (rulesBasedSummary cs)))
     = js ''Document contains '' @ showNat (length cs) @ js '' clauses''"
  by (simp add: rulesBasedSummary_def Let_def orEmpty_def)

text \<open>
  C9: when the external summary request fails, both routes return a summary and no
  exception escapes, but the key findings are the fixed list "Unable to generate
  summary" and the recommendations the fixed list "Manual review recommended": the
  \<open>catch\<close> inside \<open>generateDocumentSummary\<close> absorbs the failure, so the rules-based
  summary in the \<open>catch\<close> of the compare route is never used.
\<close>

theorem summary_on_external_failure:
  "compareRouteSummary analyzedClauses (Inl e) =
     Inr \<lparr> totalClauses = length analyzedClauses,
           riskDistributionOf = riskDistribution analyzedClauses,
           overallRiskOf = overallRisk (riskDistribution analyzedClauses),
           keyFindings = [js ''Unable to generate summary''],
           recommendationsOf = [js ''Manual review recommended''] \<rparr>
   \<and> analyzeRouteSummary analyzedClauses (Inl e) = compareRouteSummary analyzedClauses (Inl e)
   \<and> [js ''Unable to generate summary''] \<noteq> orEmpty (key_findings (rulesBasedSummary analyzedClauses))"
proof -
  have five: "length (orEmpty (key_findings (rulesBasedSummary analyzedClauses))) = 5"
    by (simp add: rulesBasedSummary_def Let_def orEmpty_def)
  have "[js ''Unable to generate summary''] \<noteq> orEmpty (key_findings (rulesBasedSummary analyzedClauses))"
  proof
    assume "[js ''Unable to generate summary''] = orEmpty (key_findings (rulesBasedSummary analyzedClauses))"
    then have "length [js ''Unable to generate summary'']
        = length (orEmpty (key_findings (rulesBasedSummary analyzedClauses)))"
      by (rule arg_cong)
    with five show False by simp
  qed
  then show ?thesis
    by (simp add: compareRouteSummary_def analyzeRouteSummary_def generateDocumentSummary_failure
        buildSummary_def orEmpty_def)
qed

section \<open>Properties of the Comparison Engine\<close>

lemma generatePlainEnglishDifference_throws:
  assumes "type = js ''deposit'' \<or> type = js ''notice''"
  shows "generatePlainEnglishDifference c1 c2 type = Inl (ReferenceError (js ''numbers1 is not defined''))"
proof -
  have "js ''deposit'' \<noteq> js ''rent''" "js ''notice'' \<noteq> js ''rent''" "js ''notice'' \<noteq> js ''deposit''"
    by (simp_all add: js_def)
  then show ?thesis using assms
    by (auto simp: generatePlainEnglishDifference_def Let_def)
qed

lemma generateClauseComparison_throws:
  assumes "type = js ''deposit'' \<or> type = js ''notice''"
  shows "generateClauseComparison (Some c1) (Some c2) type = Inl (ReferenceError (js ''numbers1 is not defined''))"
  using generatePlainEnglishDifference_throws [OF assms]
  by (simp add: generateClauseComparison_def Let_def)

lemma shownContent_getKeyInfo: "shownContent (getKeyInfo c type) = clauseContent c"
  by (simp add: shownContent_def getKeyInfo_def clauseContent_def Let_def)

lemma generateClauseComparison_sides:
  assumes "generateClauseComparison a b type = Inr e"
  shows "doc1 e = map_option (\<lambda>c. getKeyInfo c type) a \<and> doc2 e = map_option (\<lambda>c. getKeyInfo c type) b"
  using assms
  by (cases a; cases b) (auto simp: generateClauseComparison_def Let_def split: sum.splits)

lemma generateClauseComparison_one_sided:
  "\<exists>e. generateClauseComparison (Some c) None type = Inr e
       \<and> doc1 e = Some (getKeyInfo c type) \<and> doc2 e = None
       \<and> difference e = js ''Only present in Document 1''"
  "\<exists>e. generateClauseComparison None (Some c) type = Inr e
       \<and> doc1 e = None \<and> doc2 e = Some (getKeyInfo c type)
       \<and> difference e = js ''Only present in Document 2''"
  by (simp_all add: generateClauseComparison_def Let_def)

lemma findClause_Some:
  assumes "findClause clauses matched kws = Some i"
  shows "i < length clauses \<and> i \<notin> set matched"
  using assms by (auto simp: findClause_def find_Some_iff)

lemma map_filter_append: "List.map_filter f (xs @ ys) = List.map_filter f xs @ List.map_filter f ys"
  by (simp add: List.map_filter_def)

lemma map_filter_single: "List.map_filter f [x] = (case f x of None \<Rightarrow> [] | Some y \<Rightarrow> [y])"
  by (simp add: List.map_filter_def split: option.splits)

lemma matchedInv_step:
  assumes "matchedInv clauses matched (map shownContent (List.map_filter side table))"
    and "found \<noteq> None \<longrightarrow> the found < length clauses \<and> the found \<notin> set matched"
    and "side e = map_option (\<lambda>i. getKeyInfo (clauses ! i) type) found"
  shows "matchedInv clauses (matched @ (case found of None \<Rightarrow> [] | Some i \<Rightarrow> [i]))
           (map shownContent (List.map_filter side (table @ [e])))"
  using assms
  by (cases found)
     (auto simp: matchedInv_def map_filter_append map_filter_single shownContent_getKeyInfo)

lemma matchTypes_inv:
  assumes "matchTypes types clauses1 clauses2 (m1, m2, table) = Inr (m1', m2', table')"
    and "matchedInv clauses1 m1 (sides1 table)" "matchedInv clauses2 m2 (sides2 table)"
  shows "matchedInv clauses1 m1' (sides1 table') \<and> matchedInv clauses2 m2' (sides2 table')"
  using assms
proof (induction types arbitrary: m1 m2 table)
  case Nil
  then show ?case by simp
next
  case (Cons tk rest)
  obtain type kws where tk: "tk = (type, kws)" by (cases tk)
  let ?f1 = "findClause clauses1 m1 kws"
  let ?f2 = "findClause clauses2 m2 kws"
  show ?case
  proof (cases "?f1 = None \<and> ?f2 = None")
    case True
    then have "matchTypes rest clauses1 clauses2 (m1, m2, table) = Inr (m1', m2', table')"
      using Cons.prems(1) tk by simp
    then show ?thesis using Cons.prems(2,3) by (rule Cons.IH)
  next
    case False
    let ?g = "generateClauseComparison (map_option (\<lambda>i. clauses1 ! i) ?f1)
                (map_option (\<lambda>i. clauses2 ! i) ?f2) type"
    from Cons.prems(1) tk False obtain e where e: "?g = Inr e"
      and rest: "matchTypes rest clauses1 clauses2
         (m1 @ (case ?f1 of None \<Rightarrow> [] | Some i \<Rightarrow> [i]),
          m2 @ (case ?f2 of None \<Rightarrow> [] | Some i \<Rightarrow> [i]),
          table @ [e]) = Inr (m1', m2', table')"
      by (cases ?g) (auto simp: Let_def)
    have sides: "doc1 e = map_option (\<lambda>i. getKeyInfo (clauses1 ! i) type) ?f1"
      "doc2 e = map_option (\<lambda>i. getKeyInfo (clauses2 ! i) type) ?f2"
      using generateClauseComparison_sides [OF e] by (simp_all add: option.map_comp comp_def)
    have f1: "?f1 \<noteq> None \<longrightarrow> the ?f1 < length clauses1 \<and> the ?f1 \<notin> set m1"
      using findClause_Some by fastforce
    have f2: "?f2 \<noteq> None \<longrightarrow> the ?f2 < length clauses2 \<and> the ?f2 \<notin> set m2"
      using findClause_Some by fastforce
    have i1: "matchedInv clauses1 (m1 @ (case ?f1 of None \<Rightarrow> [] | Some i \<Rightarrow> [i])) (sides1 (table @ [e]))"
      unfolding sides1_def using Cons.prems(2) f1 sides(1)
      by (intro matchedInv_step) (simp_all add: sides1_def)
    have i2: "matchedInv clauses2 (m2 @ (case ?f2 of None \<Rightarrow> [] | Some i \<Rightarrow> [i])) (sides2 (table @ [e]))"
      unfolding sides2_def using Cons.prems(3) f2 sides(2)
      by (intro matchedInv_step) (simp_all add: sides2_def)
    show ?thesis using rest i1 i2 by (rule Cons.IH)
  qed
qed

lemma residual_first:
  assumes "residual True clauses matched idxs = Inr only"
  shows "sides1 only = map (\<lambda>i. clauseContent (clauses ! i)) (filter (\<lambda>i. i \<notin> set matched) idxs)
         \<and> sides2 only = []
         \<and> (\<forall>e\<in>set only. doc1 e \<noteq> None \<and> doc2 e = None
               \<and> difference e = js ''Only present in Document 1'')"
  using assms
proof (induction idxs arbitrary: only)
  case Nil
  then show ?case by (simp add: sides1_def sides2_def List.map_filter_def)
next
  case (Cons i rest)
  show ?case
  proof (cases "i \<in> set matched")
    case True
    then show ?thesis using Cons by simp
  next
    case False
    obtain e where e: "generateClauseComparison (Some (clauses ! i)) None (js ''other'') = Inr e"
      "doc1 e = Some (getKeyInfo (clauses ! i) (js ''other''))" "doc2 e = None"
      "difference e = js ''Only present in Document 1''"
      using generateClauseComparison_one_sided(1) by blast
    from Cons.prems False e(1) obtain tl where tl: "residual True clauses matched rest = Inr tl"
      "only = e # tl"
      by (cases "residual True clauses matched rest") auto
    have "sides1 (e # tl) = clauseContent (clauses ! i) # sides1 tl" "sides2 (e # tl) = sides2 tl"
      using e(2,3) by (simp_all add: sides1_def sides2_def List.map_filter_def shownContent_getKeyInfo)
    then show ?thesis using Cons.IH [OF tl(1)] tl(2) False e by simp
  qed
qed

lemma residual_second:
  assumes "residual False clauses matched idxs = Inr only"
  shows "sides2 only = map (\<lambda>i. clauseContent (clauses ! i)) (filter (\<lambda>i. i \<notin> set matched) idxs)
         \<and> sides1 only = []
         \<and> (\<forall>e\<in>set only. doc1 e = None \<and> doc2 e \<noteq> None
               \<and> difference e = js ''Only present in Document 2'')"
  using assms
proof (induction idxs arbitrary: only)
  case Nil
  then show ?case by (simp add: sides1_def sides2_def List.map_filter_def)
next
  case (Cons i rest)
  show ?case
  proof (cases "i \<in> set matched")
    case True
    then show ?thesis using Cons by simp
  next
    case False
    obtain e where e: "generateClauseComparison None (Some (clauses ! i)) (js ''other'') = Inr e"
      "doc1 e = None" "doc2 e = Some (getKeyInfo (clauses ! i) (js ''other''))"
      "difference e = js ''Only present in Document 2''"
      using generateClauseComparison_one_sided(2) by blast
    from Cons.prems False e(1) obtain tl where tl: "residual False clauses matched rest = Inr tl"
      "only = e # tl"
      by (cases "residual False clauses matched rest") auto
    have "sides2 (e # tl) = clauseContent (clauses ! i) # sides2 tl" "sides1 (e # tl) = sides1 tl"
      using e(2,3) by (simp_all add: sides1_def sides2_def List.map_filter_def shownContent_getKeyInfo)
    then show ?thesis using Cons.IH [OF tl(1)] tl(2) False e by simp
  qed
qed

lemma residual_returns: "\<exists>only. residual first clauses matched idxs = Inr only"
proof (induction idxs)
  case Nil
  then show ?case by simp
next
  case (Cons i rest)
  then obtain tl where "residual first clauses matched rest = Inr tl" by blast
  moreover obtain e1 where "generateClauseComparison (Some (clauses ! i)) None (js ''other'') = Inr e1"
    using generateClauseComparison_one_sided(1) by blast
  moreover obtain e2 where "generateClauseComparison None (Some (clauses ! i)) (js ''other'') = Inr e2"
    using generateClauseComparison_one_sided(2) by blast
  ultimately show ?case by (cases first) simp_all
qed

lemma matched_and_rest:
  assumes "matchedInv clauses matched shown"
  shows "mset shown + mset (map (\<lambda>i. clauseContent (clauses ! i))
                              (filter (\<lambda>i. i \<notin> set matched) [0..<length clauses]))
         = mset (map clauseContent clauses)"
proof -
  let ?n = "length clauses"
  let ?g = "\<lambda>i. clauseContent (clauses ! i)"
  have d: "distinct matched" and sub: "set matched \<subseteq> {..<?n}"
    and sh: "mset shown = mset (map ?g matched)"
    using assms by (simp_all add: matchedInv_def)
  have "set matched = set (filter (\<lambda>i. i \<in> set matched) [0..<?n])" using sub by auto
  then have "mset matched = mset (filter (\<lambda>i. i \<in> set matched) [0..<?n])"
    using d by (intro iffD1 [OF set_eq_iff_mset_eq_distinct]) simp_all
  then have "mset (map ?g matched) = mset (map ?g (filter (\<lambda>i. i \<in> set matched) [0..<?n]))"
    by (metis mset_map)
  then have "mset shown + mset (map ?g (filter (\<lambda>i. i \<notin> set matched) [0..<?n]))
      = mset (map ?g (filter (\<lambda>i. i \<in> set matched) [0..<?n]))
        + mset (map ?g (filter (\<lambda>i. i \<notin> set matched) [0..<?n]))"
    using sh by simp
  also have "\<dots> = mset (map ?g [0..<?n])"
    by (simp only: mset_map mset_filter image_mset_union [symmetric] multiset_partition [symmetric])
  also have "map ?g [0..<?n] = map clauseContent (map ((!) clauses) [0..<?n])"
    by simp
  also have "\<dots> = map clauseContent clauses"
    by (simp only: map_nth)
  finally show ?thesis .
qed

text \<open>
  Whenever the comparison returns a table, the clauses shown on side 1 of its entries
  are exactly the clauses of document 1, each once, and likewise for document 2.
\<close>

lemma compareClausesDetailed_partition:
  assumes "compareClausesDetailed clauses1 clauses2 = Inr table"
  shows "mset (sides1 table) = mset (map clauseContent clauses1)"
    and "mset (sides2 table) = mset (map clauseContent clauses2)"
proof -
  from assms obtain m1 m2 tab only1 only2 where
    mt: "matchTypes clauseTypes clauses1 clauses2 ([], [], []) = Inr (m1, m2, tab)"
    and r1: "residual True clauses1 m1 [0..<length clauses1] = Inr only1"
    and r2: "residual False clauses2 m2 [0..<length clauses2] = Inr only2"
    and table: "table = tab @ only1 @ only2"
    by (auto simp: compareClausesDetailed_def split: sum.splits)
  have "matchedInv clauses1 [] (sides1 [])" "matchedInv clauses2 [] (sides2 [])"
    by (simp_all add: matchedInv_def sides1_def sides2_def List.map_filter_def)
  with mt have inv: "matchedInv clauses1 m1 (sides1 tab)" "matchedInv clauses2 m2 (sides2 tab)"
    using matchTypes_inv by blast+
  have s1: "sides1 table = sides1 tab @ sides1 only1 @ sides1 only2"
    and s2: "sides2 table = sides2 tab @ sides2 only1 @ sides2 only2"
    by (simp_all add: table sides1_def sides2_def map_filter_append)
  show "mset (sides1 table) = mset (map clauseContent clauses1)"
    using matched_and_rest [OF inv(1)] residual_first [OF r1] residual_second [OF r2]
    by (simp add: s1)
  show "mset (sides2 table) = mset (map clauseContent clauses2)"
    using matched_and_rest [OF inv(2)] residual_first [OF r1] residual_second [OF r2]
    by (simp add: s2)
qed

lemma generateClauseComparison_returns:
  assumes "type \<noteq> js ''deposit''" "type \<noteq> js ''notice''"
  shows "\<exists>e. generateClauseComparison a b type = Inr e"
  using assms
  by (cases a; cases b)
     (auto simp: generateClauseComparison_def generatePlainEnglishDifference_def Let_def
           split: prod.splits option.splits)

lemma deposit_found:
  "findClause [plainClause (js ''The deposit is 2 months.'')] []
     [js ''rent'', js ''payment'', js ''monthly'', js ''amount''] = None"
  "findClause [plainClause (js ''The deposit is 3 months.'')] []
     [js ''rent'', js ''payment'', js ''monthly'', js ''amount''] = None"
  "findClause [plainClause (js ''The deposit is 2 months.'')] []
     [js ''deposit'', js ''security'', js ''advance''] = Some 0"
  "findClause [plainClause (js ''The deposit is 3 months.'')] []
     [js ''deposit'', js ''security'', js ''advance''] = Some 0"
  by code_simp+

text \<open>
  C1: two well-formed documents, one deposit clause each. The two clauses are matched as
  the type "deposit", the plain-English rendering of the pair reads the undeclared
  variable \<open>numbers1\<close>, and the comparison ends with a \<open>ReferenceError\<close> instead of a
  ComparisonEntry.
\<close>

theorem compareClausesDetailed_throws:
  "compareClausesDetailed [plainClause (js ''The deposit is 2 months.'')]
       [plainClause (js ''The deposit is 3 months.'')]
     = Inl (ReferenceError (js ''numbers1 is not defined''))"
  by (simp add: compareClausesDetailed_def clauseTypes_def deposit_found
      generateClauseComparison_throws Let_def)

lemma rent_deposit_found:
  "findClause [plainClause (js ''Rent is Rs. 15,000.''), plainClause (js ''The deposit is 2 months.'')] []
     [js ''rent'', js ''payment'', js ''monthly'', js ''amount''] = Some 0"
  "findClause [plainClause (js ''Rent is Rs. 18,000.''), plainClause (js ''The deposit is 3 months.'')] []
     [js ''rent'', js ''payment'', js ''monthly'', js ''amount''] = Some 0"
  "findClause [plainClause (js ''Rent is Rs. 15,000.''), plainClause (js ''The deposit is 2 months.'')] [0]
     [js ''deposit'', js ''security'', js ''advance''] = Some 1"
  "findClause [plainClause (js ''Rent is Rs. 18,000.''), plainClause (js ''The deposit is 3 months.'')] [0]
     [js ''deposit'', js ''security'', js ''advance''] = Some 1"
  by code_simp+

text \<open>
  C8: two documents with a rent clause and a deposit clause each. The rent clauses are
  matched first and their entry is built; the deposit pair then throws, the whole
  comparison is lost, and no clause of either document appears in any entry. Where the
  comparison does return, every clause appears in exactly one entry
  (\<open>compareClausesDetailed_partition\<close>).
\<close>

theorem compareClausesDetailed_loses_all_entries:
  "compareClausesDetailed
     [plainClause (js ''Rent is Rs. 15,000.''), plainClause (js ''The deposit is 2 months.'')]
     [plainClause (js ''Rent is Rs. 18,000.''), plainClause (js ''The deposit is 3 months.'')]
   = Inl (ReferenceError (js ''numbers1 is not defined''))"
proof -
  have "js ''rent'' \<noteq> js ''deposit''" "js ''rent'' \<noteq> js ''notice''"
    by (simp_all add: js_def)
  then obtain e where e: "generateClauseComparison (Some (plainClause (js ''Rent is Rs. 15,000.'')))
      (Some (plainClause (js ''Rent is Rs. 18,000.''))) (js ''rent'') = Inr e"
    using generateClauseComparison_returns by blast
  show ?thesis
    by (simp add: compareClausesDetailed_def clauseTypes_def rent_deposit_found e
        generateClauseComparison_throws Let_def)
qed

section \<open>Properties of the External Analysis Scheduler\<close>
















end
